theory Spec2Isabelle
  imports Main
begin

section \<open>Data model (interfaces/Job, models/JobModel, models/RecurringJobModel)\<close>

text \<open>
  Instants (JavaScript \<open>Date\<close> values) are integers: milliseconds since the epoch.
  Durations and counters (JavaScript numbers) are integers. The payload \<open>data\<close> is opaque
  to the scheduler. A job's \<open>job_id\<close> is the value of its \<open>_id\<close>, an ObjectId. Both schemas
  set the option \<open>timestamps\<close>: the store stamps \<open>createdAt\<close> and \<open>updatedAt\<close> when a
  document is saved and \<open>updatedAt\<close> again with every update.
\<close>

datatype JobStatus = PENDING | RUNNING | COMPLETED | FAILED

datatype JobPriority = LOW | NORMAL | HIGH

text \<open>The enum values are strings; this is what is persisted and what the store sorts on.\<close>

fun priority_value :: "JobPriority \<Rightarrow> string" where
  "priority_value LOW = ''low''"
| "priority_value NORMAL = ''normal''"
| "priority_value HIGH = ''high''"

fun status_value :: "JobStatus \<Rightarrow> string" where
  "status_value PENDING = ''pending''"
| "status_value RUNNING = ''running''"
| "status_value COMPLETED = ''completed''"
| "status_value FAILED = ''failed''"

type_synonym JobData = string

record JobOptions =
  opt_priority :: "JobPriority option"
  opt_maxRetries :: "int option"
  opt_retryDelay :: "int option"
  opt_timeout :: "int option"

record Job =
  job_id :: string
  name :: string
  data :: JobData
  status :: JobStatus
  scheduledAt :: int
  executedAt :: "int option"
  completedAt :: "int option"
  errorMessage :: "string option"
  attempts :: int
  userId :: "string option"
  priority :: JobPriority
  maxRetries :: int
  retryDelay :: int
  timeout :: int
  createdAt :: int
  updatedAt :: int

record RecurringJob =
  rec_id :: string
  rec_name :: string
  rec_data :: JobData
  cronExpression :: string
  rec_userId :: "string option"
  rec_priority :: JobPriority
  rec_maxRetries :: int
  rec_retryDelay :: int
  rec_timeout :: int
  lastExecutedAt :: "int option"
  isActive :: bool
  rec_createdAt :: int
  rec_updatedAt :: int

record JobResult =
  success :: bool
  error :: "string option"

text \<open>
  JavaScript's \<open>a || b\<close> on an optional number: \<open>undefined\<close> and \<open>0\<close> are falsy, so
  the right operand is taken for both. On an optional priority every enum value is a
  non-empty string, hence truthy.
\<close>

fun num_or :: "int option \<Rightarrow> int \<Rightarrow> int" where
  "num_or None d = d"
| "num_or (Some n) d = (if n = 0 then d else n)"

fun priority_or :: "JobPriority option \<Rightarrow> JobPriority \<Rightarrow> JobPriority" where
  "priority_or None d = d"
| "priority_or (Some p) d = p"

text \<open>\<open>options?.field\<close>: the options argument itself may be absent.\<close>

definition opt_field :: "('o \<Rightarrow> 'a option) \<Rightarrow> 'o option \<Rightarrow> 'a option" where
  "opt_field f options = (case options of None \<Rightarrow> None | Some opts \<Rightarrow> f opts)"

section \<open>JobRepository: the job collection\<close>

text \<open>
  The collection is the list of its documents in insertion order. The database assigns a
  fresh \<open>_id\<close> to each saved document; the model takes it as the argument \<open>newId\<close>. The
  argument \<open>now\<close> of a writing operation is the clock reading at which the store applies
  it.
\<close>

definition new_job ::
  "string \<Rightarrow> string \<Rightarrow> JobData \<Rightarrow> int \<Rightarrow> JobOptions option \<Rightarrow> string option \<Rightarrow> int \<Rightarrow> Job" where
  "new_job newId nm d at options uid now =
     \<lparr> job_id = newId, name = nm, data = d, status = PENDING, scheduledAt = at,
       executedAt = None, completedAt = None, errorMessage = None, attempts = 0,
       userId = uid,
       priority = priority_or (opt_field opt_priority options) NORMAL,
       maxRetries = num_or (opt_field opt_maxRetries options) 3,
       retryDelay = num_or (opt_field opt_retryDelay options) 60000,
       timeout = num_or (opt_field opt_timeout options) 30000,
       createdAt = now, updatedAt = now \<rparr>"

definition createJob ::
  "Job list \<Rightarrow> string \<Rightarrow> string \<Rightarrow> JobData \<Rightarrow> int \<Rightarrow> JobOptions option \<Rightarrow> string option
     \<Rightarrow> int \<Rightarrow> Job \<times> Job list" where
  "createJob coll newId nm d at options uid now =
     (let j = new_job newId nm d at options uid now in (j, coll @ [j]))"

text \<open>
  The store looks documents up by ObjectId. \<open>JobModel.findById\<close>, \<open>findByIdAndUpdate\<close> and
  \<open>deleteOne\<close> first cast the id they are given to an ObjectId and raise a cast error when
  that fails. In the functions of this section the id is an ObjectId value already, as
  \<open>job.id\<close> is at every call from \<open>processJob\<close>, where the cast changes nothing. The
  scheduler's operations that pass on a caller's string (\<open>getJob\<close>, \<open>cancelJob\<close>,
  \<open>retryJob\<close>) make the cast, and raise its error, before their first lookup. The cast is
  the driver's and is a parameter, \<open>cast_id\<close>: \<open>None\<close> where it fails, otherwise the
  ObjectId value.
\<close>

type_synonym IdCast = "string \<Rightarrow> string option"

fun getJobById :: "Job list \<Rightarrow> string \<Rightarrow> Job option" where
  "getJobById [] i = None"
| "getJobById (j # js) i = (if job_id j = i then Some j else getJobById js i)"

text \<open>\<open>findByIdAndUpdate\<close>: the first document with the id is replaced by its update.\<close>

fun findByIdAndUpdate :: "Job list \<Rightarrow> string \<Rightarrow> (Job \<Rightarrow> Job) \<Rightarrow> Job list" where
  "findByIdAndUpdate [] i f = []"
| "findByIdAndUpdate (j # js) i f =
     (if job_id j = i then f j # js else j # findByIdAndUpdate js i f)"

text \<open>
  \<open>updateJobStatus\<close> builds the update document \<open>{status}\<close> and adds one stamp
  according to the target status; the error message is written only for \<open>FAILED\<close> and
  only when the message is truthy (present and non-empty). The store adds \<open>updatedAt\<close> to
  what is set.
\<close>

definition update_doc :: "JobStatus \<Rightarrow> string option \<Rightarrow> int \<Rightarrow> Job \<Rightarrow> Job" where
  "update_doc st msg now j =
     (if st = RUNNING then j\<lparr>status := st, executedAt := Some now, updatedAt := now\<rparr>
      else if st = COMPLETED then j\<lparr>status := st, completedAt := Some now, updatedAt := now\<rparr>
      else if st = FAILED \<and> msg \<noteq> None \<and> msg \<noteq> Some []
        then j\<lparr>status := st, errorMessage := msg, updatedAt := now\<rparr>
      else j\<lparr>status := st, updatedAt := now\<rparr>)"

definition updateJobStatus :: "Job list \<Rightarrow> string \<Rightarrow> JobStatus \<Rightarrow> string option \<Rightarrow> int \<Rightarrow> Job list" where
  "updateJobStatus coll i st msg now = findByIdAndUpdate coll i (update_doc st msg now)"

definition incrementJobAttempts :: "Job list \<Rightarrow> string \<Rightarrow> int \<Rightarrow> Job list" where
  "incrementJobAttempts coll i now =
     findByIdAndUpdate coll i (\<lambda>j. j\<lparr>attempts := attempts j + 1, updatedAt := now\<rparr>)"

text \<open>\<open>deleteOne\<close> removes the first matching document and reports how many it removed.\<close>

fun deleteOne :: "Job list \<Rightarrow> string \<Rightarrow> Job list" where
  "deleteOne [] i = []"
| "deleteOne (j # js) i = (if job_id j = i then js else j # deleteOne js i)"

definition deleteJob :: "Job list \<Rightarrow> string \<Rightarrow> bool \<times> Job list" where
  "deleteJob coll i =
     (let coll' = deleteOne coll i in (int (length coll) - int (length coll') = 1, coll'))"

text \<open>
  The store compares strings byte by byte (no collation is configured), a proper prefix
  being smaller.
\<close>

fun str_less :: "string \<Rightarrow> string \<Rightarrow> bool" where
  "str_less [] [] = False"
| "str_less [] (y # ys) = True"
| "str_less (x # xs) [] = False"
| "str_less (x # xs) (y # ys) =
     ((of_char x :: nat) < of_char y \<or> (x = y \<and> str_less xs ys))"

text \<open>
  The sort specification \<open>{ priority: -1, scheduledAt: 1 }\<close>: descending on the stored
  priority value, then ascending on the due time. \<open>sort_before a b\<close> says that \<open>a\<close> may
  stand before \<open>b\<close>.
\<close>

definition sort_before :: "Job \<Rightarrow> Job \<Rightarrow> bool" where
  "sort_before a b \<longleftrightarrow>
     str_less (priority_value (priority b)) (priority_value (priority a))
     \<or> (priority_value (priority a) = priority_value (priority b) \<and> scheduledAt a \<le> scheduledAt b)"

fun insort_job :: "Job \<Rightarrow> Job list \<Rightarrow> Job list" where
  "insort_job a [] = [a]"
| "insort_job a (b # bs) = (if sort_before a b then a # b # bs else b # insort_job a bs)"

fun sort_jobs :: "Job list \<Rightarrow> Job list" where
  "sort_jobs [] = []"
| "sort_jobs (a # as) = insort_job a (sort_jobs as)"

text \<open>
  The cursor's \<open>limit(n)\<close>: zero means no limit, a negative number counts as its
  absolute value.
\<close>

definition limit_docs :: "int \<Rightarrow> 'a list \<Rightarrow> 'a list" where
  "limit_docs n xs = (if n = 0 then xs else take (nat \<bar>n\<bar>) xs)"

definition is_due :: "int \<Rightarrow> Job \<Rightarrow> bool" where
  "is_due now j \<longleftrightarrow> status j = PENDING \<and> scheduledAt j \<le> now"

definition getPendingJobs :: "Job list \<Rightarrow> int \<Rightarrow> int \<Rightarrow> Job list" where
  "getPendingJobs coll lim now = limit_docs lim (sort_jobs (filter (is_due now) coll))"

section \<open>RecurringJobRepository\<close>

definition new_recurring ::
  "string \<Rightarrow> string \<Rightarrow> JobData \<Rightarrow> string \<Rightarrow> JobOptions option \<Rightarrow> string option \<Rightarrow> int
     \<Rightarrow> RecurringJob" where
  "new_recurring newId nm d cronExpr options uid now =
     \<lparr> rec_id = newId, rec_name = nm, rec_data = d, cronExpression = cronExpr,
       rec_userId = uid,
       rec_priority = priority_or (opt_field opt_priority options) NORMAL,
       rec_maxRetries = num_or (opt_field opt_maxRetries options) 3,
       rec_retryDelay = num_or (opt_field opt_retryDelay options) 60000,
       rec_timeout = num_or (opt_field opt_timeout options) 30000,
       lastExecutedAt = None, isActive = True, rec_createdAt = now, rec_updatedAt = now \<rparr>"

definition createRecurringJob ::
  "RecurringJob list \<Rightarrow> string \<Rightarrow> string \<Rightarrow> JobData \<Rightarrow> string \<Rightarrow> JobOptions option \<Rightarrow> string option
     \<Rightarrow> int \<Rightarrow> RecurringJob \<times> RecurringJob list" where
  "createRecurringJob coll newId nm d cronExpr options uid now =
     (let r = new_recurring newId nm d cronExpr options uid now in (r, coll @ [r]))"

section \<open>Dates\<close>

text \<open>
  A \<open>Date\<close> is its time value, an integer number of milliseconds since the epoch; the
  mutating methods return the new time value. The definitions follow the date arithmetic
  of the language standard (\<open>Day\<close>, \<open>TimeWithinDay\<close>, \<open>MakeTime\<close>, \<open>MakeDay\<close>,
  \<open>MakeDate\<close>) on the proleptic Gregorian calendar. Invalid dates and the range limit
  of time values are outside the model.
\<close>

definition msPerSecond :: int where "msPerSecond = 1000"
definition msPerMinute :: int where "msPerMinute = 60000"
definition msPerHour :: int where "msPerHour = 3600000"
definition msPerDay :: int where "msPerDay = 86400000"

definition Day :: "int \<Rightarrow> int" where "Day t = t div msPerDay"
definition TimeWithinDay :: "int \<Rightarrow> int" where "TimeWithinDay t = t mod msPerDay"
definition HourFromTime :: "int \<Rightarrow> int" where "HourFromTime t = (t div msPerHour) mod 24"
definition MinFromTime :: "int \<Rightarrow> int" where "MinFromTime t = (t div msPerMinute) mod 60"
definition SecFromTime :: "int \<Rightarrow> int" where "SecFromTime t = (t div msPerSecond) mod 60"
definition msFromTime :: "int \<Rightarrow> int" where "msFromTime t = t mod msPerSecond"
definition WeekDay :: "int \<Rightarrow> int" where "WeekDay t = (Day t + 4) mod 7"

definition MakeTime :: "int \<Rightarrow> int \<Rightarrow> int \<Rightarrow> int \<Rightarrow> int" where
  "MakeTime h m s ms = h * msPerHour + m * msPerMinute + s * msPerSecond + ms"

definition MakeDate :: "int \<Rightarrow> int \<Rightarrow> int" where
  "MakeDate day time = day * msPerDay + time"

text \<open>
  Day number of a civil date (month 1..12) and back, counted from 1970-01-01, by the
  usual era arithmetic: years are shifted to start in March, an era is 400 years or
  146097 days.
\<close>

definition days_from_civil :: "int \<Rightarrow> int \<Rightarrow> int \<Rightarrow> int" where
  "days_from_civil y0 m d =
     (let y = (if m \<le> 2 then y0 - 1 else y0);
          era = y div 400;
          yoe = y - era * 400;
          doy = (153 * (if m > 2 then m - 3 else m + 9) + 2) div 5 + d - 1;
          doe = yoe * 365 + yoe div 4 - yoe div 100 + doy
      in era * 146097 + doe - 719468)"

definition civil_from_days :: "int \<Rightarrow> int \<times> int \<times> int" where
  "civil_from_days z0 =
     (let z = z0 + 719468;
          era = z div 146097;
          doe = z - era * 146097;
          yoe = (doe - doe div 1460 + doe div 36524 - doe div 146096) div 365;
          y = yoe + era * 400;
          doy = doe - (365 * yoe + yoe div 4 - yoe div 100);
          mp = (5 * doy + 2) div 153;
          d = doy - (153 * mp + 2) div 5 + 1;
          m = (if mp < 10 then mp + 3 else mp - 9)
      in (if m \<le> 2 then y + 1 else y, m, d))"

definition YearFromTime :: "int \<Rightarrow> int" where
  "YearFromTime t = fst (civil_from_days (Day t))"

text \<open>Months are numbered from 0.\<close>

definition MonthFromTime :: "int \<Rightarrow> int" where
  "MonthFromTime t = fst (snd (civil_from_days (Day t))) - 1"

text \<open>
  \<open>MakeDay\<close> normalises a month outside 0..11 into the year and counts the date from the
  first of the month, so a date outside the month runs over into the neighbouring ones.
\<close>

definition MakeDay :: "int \<Rightarrow> int \<Rightarrow> int \<Rightarrow> int" where
  "MakeDay year month date =
     days_from_civil (year + month div 12) (month mod 12 + 1) 1 + date - 1"

definition DateFromTime :: "int \<Rightarrow> int" where
  "DateFromTime t = Day t - MakeDay (YearFromTime t) (MonthFromTime t) 1 + 1"

text \<open>
  The getters and setters used by the scheduler work in the local time of the host. The
  host's time zone is a parameter: \<open>offsetUTC\<close> gives the offset of local time from UTC,
  in milliseconds, in force at a UTC instant, and \<open>offsetLocal\<close> the offset by which a
  local time value is read back. Where a local time occurs twice or not at all (at a
  change of offset) the standard reads it with the offset in force before the change.
\<close>

record Zone =
  offsetUTC :: "int \<Rightarrow> int"
  offsetLocal :: "int \<Rightarrow> int"

definition LocalTime :: "Zone \<Rightarrow> int \<Rightarrow> int" where "LocalTime z t = t + offsetUTC z t"
definition UTC :: "Zone \<Rightarrow> int \<Rightarrow> int" where "UTC z t = t - offsetLocal z t"

text \<open>A zone that keeps one offset for ever.\<close>

definition fixed_zone :: "int \<Rightarrow> Zone" where
  "fixed_zone tz = \<lparr> offsetUTC = (\<lambda>t. tz), offsetLocal = (\<lambda>t. tz) \<rparr>"

text \<open>
  A zone with one change of offset, from \<open>old\<close> to \<open>new\<close> at the UTC instant \<open>x\<close>. The
  local clock reads \<open>x + old\<close> when the change comes and \<open>x + new\<close> right after it, so
  the local times between the two are the repeated (or skipped) ones and are read with
  \<open>old\<close>.
\<close>

definition changing_zone :: "int \<Rightarrow> int \<Rightarrow> int \<Rightarrow> Zone" where
  "changing_zone x old new =
     \<lparr> offsetUTC = (\<lambda>t. if t < x then old else new),
       offsetLocal = (\<lambda>t. if t < x + max old new then old else new) \<rparr>"

definition getMinutes :: "Zone \<Rightarrow> int \<Rightarrow> int" where
  "getMinutes z d = MinFromTime (LocalTime z d)"

definition getHours :: "Zone \<Rightarrow> int \<Rightarrow> int" where
  "getHours z d = HourFromTime (LocalTime z d)"

definition getDate :: "Zone \<Rightarrow> int \<Rightarrow> int" where
  "getDate z d = DateFromTime (LocalTime z d)"

definition getDay :: "Zone \<Rightarrow> int \<Rightarrow> int" where
  "getDay z d = WeekDay (LocalTime z d)"

definition getMonth :: "Zone \<Rightarrow> int \<Rightarrow> int" where
  "getMonth z d = MonthFromTime (LocalTime z d)"

definition setMilliseconds :: "Zone \<Rightarrow> int \<Rightarrow> int \<Rightarrow> int" where
  "setMilliseconds z d ms =
     (let t = LocalTime z d
      in UTC z (MakeDate (Day t) (MakeTime (HourFromTime t) (MinFromTime t) (SecFromTime t) ms)))"

definition setSeconds :: "Zone \<Rightarrow> int \<Rightarrow> int \<Rightarrow> int" where
  "setSeconds z d s =
     (let t = LocalTime z d
      in UTC z (MakeDate (Day t) (MakeTime (HourFromTime t) (MinFromTime t) s (msFromTime t))))"

definition setMinutes :: "Zone \<Rightarrow> int \<Rightarrow> int \<Rightarrow> int" where
  "setMinutes z d m =
     (let t = LocalTime z d
      in UTC z (MakeDate (Day t) (MakeTime (HourFromTime t) m (SecFromTime t) (msFromTime t))))"

definition setHours :: "Zone \<Rightarrow> int \<Rightarrow> int \<Rightarrow> int" where
  "setHours z d h =
     (let t = LocalTime z d
      in UTC z (MakeDate (Day t) (MakeTime h (MinFromTime t) (SecFromTime t) (msFromTime t))))"

definition setDate :: "Zone \<Rightarrow> int \<Rightarrow> int \<Rightarrow> int" where
  "setDate z d dt =
     (let t = LocalTime z d
      in UTC z (MakeDate (MakeDay (YearFromTime t) (MonthFromTime t) dt) (TimeWithinDay t)))"

definition setMonth :: "Zone \<Rightarrow> int \<Rightarrow> int \<Rightarrow> int" where
  "setMonth z d m =
     (let t = LocalTime z d
      in UTC z (MakeDate (MakeDay (YearFromTime t) m (DateFromTime t)) (TimeWithinDay t)))"

section \<open>Scheduler.getNextRunTime\<close>

text \<open>\<open>String.split\<close> on a one-character separator: the empty string gives one empty part.\<close>

fun split_on :: "char \<Rightarrow> string \<Rightarrow> string list" where
  "split_on c [] = [[]]"
| "split_on c (x # xs) =
     (if x = c then [] # split_on c xs
      else (case split_on c xs of [] \<Rightarrow> [[x]] | w # ws \<Rightarrow> (x # w) # ws))"

text \<open>Indexing an array past its end gives \<open>undefined\<close>, which equals no string.\<close>

definition part_is :: "string list \<Rightarrow> nat \<Rightarrow> string \<Rightarrow> bool" where
  "part_is parts i v \<longleftrightarrow> i < length parts \<and> parts ! i = v"

text \<open>
  The first statements of the body, common to all branches: \<open>nextDate\<close> starts as a copy
  of \<open>from\<close>, gets one minute added and its seconds and milliseconds zeroed.
\<close>

definition round_forward :: "Zone \<Rightarrow> int \<Rightarrow> int" where
  "round_forward z from =
     (let nextDate = from;
          nextDate = setMinutes z nextDate (getMinutes z nextDate + 1);
          nextDate = setSeconds z nextDate 0
      in setMilliseconds z nextDate 0)"

text \<open>
  The argument \<open>from\<close> defaults to the current time at the call; callers of the model
  pass it. The branches are tested in the order of the source.
\<close>

definition getNextRunTime :: "Zone \<Rightarrow> string \<Rightarrow> int \<Rightarrow> int" where
  "getNextRunTime z cronExpr from =
     (let parts = split_on CHR '' '' cronExpr;
          now = from;
          nextDate = round_forward z now
      in if cronExpr = ''* * * * *'' then nextDate
         else if part_is parts 0 ''0'' \<and> part_is parts 1 ''*'' then
           (let nextDate = setMinutes z nextDate 0
            in if getMinutes z now = 0 then setHours z nextDate (getHours z nextDate + 1)
               else nextDate)
         else if part_is parts 0 ''0'' \<and> part_is parts 1 ''0'' \<and> part_is parts 2 ''*'' then
           (let nextDate = setMinutes z nextDate 0;
                nextDate = setHours z nextDate 0
            in setDate z nextDate (getDate z nextDate + 1))
         else if part_is parts 0 ''0'' \<and> part_is parts 1 ''0'' \<and> part_is parts 4 ''0'' then
           (let nextDate = setMinutes z nextDate 0;
                nextDate = setHours z nextDate 0
            in setDate z nextDate (getDate z nextDate + (7 - getDay z nextDate)))
         else if part_is parts 0 ''0'' \<and> part_is parts 1 ''0'' \<and> part_is parts 2 ''1'' then
           (let nextDate = setMinutes z nextDate 0;
                nextDate = setHours z nextDate 0;
                nextDate = setDate z nextDate 1
            in setMonth z nextDate (getMonth z nextDate + 1))
         else setMinutes z nextDate (getMinutes z nextDate + 5))"

section \<open>Scheduler\<close>

datatype SchedulerEvent =
  JOB_SCHEDULED | JOB_STARTED | JOB_COMPLETED | JOB_FAILED | JOB_RETRIED | JOB_CANCELLED

text \<open>
  A handler is called with the job and its promise is raced against the job's timer. What
  the handler does is its outcome: it resolves with a result, it throws (an \<open>Error\<close>
  with its message, or some other value), or it is still pending when the timer fires.
\<close>

datatype HandlerOutcome = Returns JobResult | Throws "string option" | Hangs

type_synonym JobHandler = "Job \<Rightarrow> HandlerOutcome"

datatype RaceResult = Resolved JobResult | Rejected "string option"

datatype sched_error = NotInitialized | InvalidCron string | CannotRetry JobStatus | CastError string

text \<open>
  The scheduler's own state (\<open>initialized\<close>, the handler map, the active-job set, the
  option \<open>maxConcurrentJobs\<close>), the two collections behind its repositories, and the log
  of the events it has emitted. The active-job set is a JavaScript \<open>Set\<close>: it keeps
  insertion order and holds no element twice.
\<close>

record Scheduler =
  initialized :: bool
  jobHandlers :: "string \<Rightarrow> JobHandler option"
  activeJobs :: "string list"
  maxConcurrentJobs :: int
  jobs :: "Job list"
  recurringJobs :: "RecurringJob list"
  emitted :: "(SchedulerEvent \<times> Job) list"

definition set_has :: "string list \<Rightarrow> string \<Rightarrow> bool" where
  "set_has xs x \<longleftrightarrow> x \<in> set xs"

definition set_add :: "string list \<Rightarrow> string \<Rightarrow> string list" where
  "set_add xs x = (if x \<in> set xs then xs else xs @ [x])"

definition set_delete :: "string list \<Rightarrow> string \<Rightarrow> string list" where
  "set_delete xs x = removeAll x xs"

definition set_size :: "string list \<Rightarrow> int" where
  "set_size xs = int (length xs)"

definition emit :: "Scheduler \<Rightarrow> SchedulerEvent \<Rightarrow> Job \<Rightarrow> Scheduler" where
  "emit s ev job = s\<lparr>emitted := emitted s @ [(ev, job)]\<rparr>"

text \<open>Decimal rendering of a number inside a template string.\<close>

fun show_nat :: "nat \<Rightarrow> string" where
  "show_nat n =
     (if n < 10 then [char_of (48 + n)] else show_nat (n div 10) @ [char_of (48 + n mod 10)])"

declare show_nat.simps [simp del]

definition show_int :: "int \<Rightarrow> string" where
  "show_int i = (if i < 0 then CHR ''-'' # show_nat (nat (- i)) else show_nat (nat i))"

definition scheduleJob ::
  "Scheduler \<Rightarrow> string \<Rightarrow> string \<Rightarrow> JobData \<Rightarrow> int \<Rightarrow> JobOptions option \<Rightarrow> string option
     \<Rightarrow> int \<Rightarrow> sched_error + (Job \<times> Scheduler)" where
  "scheduleJob s newId nm d at options uid now =
     (if \<not> initialized s then Inl NotInitialized
      else (case createJob (jobs s) newId nm d at options uid now of
              (job, coll) \<Rightarrow> Inr (job, emit (s\<lparr>jobs := coll\<rparr>) JOB_SCHEDULED job)))"

text \<open>
  \<open>validate\<close> stands for the cron library's syntax check and \<open>z\<close> for the host's time
  zone; \<open>recId\<close> and \<open>newId\<close> are the ids the database gives to the two documents;
  \<open>now\<close> is the clock reading that \<open>getNextRunTime\<close> takes as its default \<open>from\<close>.
\<close>

definition scheduleRecurringJob ::
  "(string \<Rightarrow> bool) \<Rightarrow> Zone \<Rightarrow> Scheduler \<Rightarrow> string \<Rightarrow> string \<Rightarrow> string \<Rightarrow> JobData \<Rightarrow> string
     \<Rightarrow> JobOptions option \<Rightarrow> string option \<Rightarrow> int \<Rightarrow> sched_error + (Job \<times> Scheduler)" where
  "scheduleRecurringJob validate z s recId newId nm d cronExpr options uid now =
     (if \<not> initialized s then Inl NotInitialized
      else if \<not> validate cronExpr then Inl (InvalidCron cronExpr)
      else (case createRecurringJob (recurringJobs s) recId nm d cronExpr options uid now of
              (r, rcoll) \<Rightarrow>
                (let s = s\<lparr>recurringJobs := rcoll\<rparr>;
                     nextRunTime = getNextRunTime z cronExpr now
                 in (case createJob (jobs s) newId nm d nextRunTime options uid now of
                       (job, coll) \<Rightarrow> Inr (job, emit (s\<lparr>jobs := coll\<rparr>) JOB_SCHEDULED job)))))"

text \<open>
  The three operations below take the job id as the caller's string. Their first
  repository call is \<open>getJobById\<close>, where the store casts the string; a failed cast raises
  there and none of them catches it. The later repository calls cast the same string again.
\<close>

definition getJob :: "IdCast \<Rightarrow> Scheduler \<Rightarrow> string \<Rightarrow> sched_error + Job option" where
  "getJob cast_id s jobId =
     (if \<not> initialized s then Inl NotInitialized
      else (case cast_id jobId of
              None \<Rightarrow> Inl (CastError jobId)
            | Some oid \<Rightarrow> Inr (getJobById (jobs s) oid)))"

definition cancelJob :: "IdCast \<Rightarrow> Scheduler \<Rightarrow> string \<Rightarrow> sched_error + (bool \<times> Scheduler)" where
  "cancelJob cast_id s jobId =
     (if \<not> initialized s then Inl NotInitialized
      else (case cast_id jobId of
              None \<Rightarrow> Inl (CastError jobId)
            | Some oid \<Rightarrow>
                (case getJobById (jobs s) oid of
                   None \<Rightarrow> Inr (False, s)
                 | Some job \<Rightarrow>
                     if status job \<noteq> PENDING then Inr (False, s)
                     else (case deleteJob (jobs s) oid of
                             (ok, coll) \<Rightarrow>
                               (let s = s\<lparr>jobs := coll\<rparr>
                                in Inr (ok, if ok then emit s JOB_CANCELLED job else s))))))"

definition retryJob ::
  "IdCast \<Rightarrow> Scheduler \<Rightarrow> string \<Rightarrow> int \<Rightarrow> sched_error + (Job option \<times> Scheduler)" where
  "retryJob cast_id s jobId now =
     (if \<not> initialized s then Inl NotInitialized
      else (case cast_id jobId of
              None \<Rightarrow> Inl (CastError jobId)
            | Some oid \<Rightarrow>
                (case getJobById (jobs s) oid of
                   None \<Rightarrow> Inr (None, s)
                 | Some job \<Rightarrow>
                     if status job \<noteq> FAILED then Inl (CannotRetry (status job))
                     else (let s = s\<lparr>jobs := updateJobStatus (jobs s) oid PENDING None now\<rparr>
                           in (case getJobById (jobs s) oid of
                                 None \<Rightarrow> Inr (None, s)
                               | Some updatedJob \<Rightarrow>
                                   Inr (Some updatedJob, emit s JOB_RETRIED updatedJob))))))"

subsection \<open>processJob\<close>

text \<open>
  This subsection is \<open>processJob\<close> for a call that runs from its first statement to its
  last with nothing else running at its awaits, and with the job's id taken for the
  object in the active-job set that has its value. What happens when calls overlap, and
  when a job fetched again brings an id object of its own, is the subject of the section
  on overlapping calls.

  \<open>processJob\<close> up to the call of the handler: the guard on the active-job set, the
  lookup of the handler, and for a job that has one the transition to \<open>RUNNING\<close>, the
  entry into the active-job set, the attempt count and the start event. The result says
  whether a handler was started. The awaited repository calls take effect in program
  order, all at the clock reading \<open>now\<close>.
\<close>

definition processJob_start :: "Scheduler \<Rightarrow> Job \<Rightarrow> int \<Rightarrow> JobHandler option \<times> Scheduler" where
  "processJob_start s job now =
     (if set_has (activeJobs s) (job_id job) then (None, s)
      else (case jobHandlers s (name job) of
              None \<Rightarrow>
                (None, s\<lparr>jobs := updateJobStatus (jobs s) (job_id job) FAILED
                                   (Some (''No handler registered for job type: '' @ name job)) now\<rparr>)
            | Some handler \<Rightarrow>
                (let s = s\<lparr>jobs := updateJobStatus (jobs s) (job_id job) RUNNING None now\<rparr>;
                     s = s\<lparr>activeJobs := set_add (activeJobs s) (job_id job)\<rparr>;
                     s = s\<lparr>jobs := incrementJobAttempts (jobs s) (job_id job) now\<rparr>;
                     s = emit s JOB_STARTED job
                 in (Some handler, s))))"

text \<open>The race of the handler's promise against the timer.\<close>

definition race :: "Job \<Rightarrow> HandlerOutcome \<Rightarrow> RaceResult" where
  "race job out =
     (case out of
        Returns result \<Rightarrow> Resolved result
      | Throws e \<Rightarrow> Rejected e
      | Hangs \<Rightarrow> Rejected (Some (''Job timed out after '' @ show_int (timeout job) @ ''ms'')))"

text \<open>
  The retry check after a failed result: the job is read back, and when it exists with
  \<open>attempts < maxRetries\<close> the status is written twice. \<open>retryTime\<close> is computed and
  used nowhere.
\<close>

definition retry_after_result :: "Scheduler \<Rightarrow> string \<Rightarrow> int \<Rightarrow> Scheduler" where
  "retry_after_result s jobId now =
     (case getJobById (jobs s) jobId of
        None \<Rightarrow> s
      | Some updatedJob \<Rightarrow>
          if attempts updatedJob < maxRetries updatedJob then
            (let retryTime = now + retryDelay updatedJob;
                 s = s\<lparr>jobs := updateJobStatus (jobs s) (job_id updatedJob) PENDING None now\<rparr>
             in s\<lparr>jobs := updateJobStatus (jobs s) (job_id updatedJob) PENDING None now\<rparr>)
          else s)"

text \<open>The same check in the exception path, with one write.\<close>

definition retry_after_exception :: "Scheduler \<Rightarrow> string \<Rightarrow> int \<Rightarrow> Scheduler" where
  "retry_after_exception s jobId now =
     (case getJobById (jobs s) jobId of
        None \<Rightarrow> s
      | Some updatedJob \<Rightarrow>
          if attempts updatedJob < maxRetries updatedJob then
            (let retryTime = now + retryDelay updatedJob
             in s\<lparr>jobs := updateJobStatus (jobs s) (job_id updatedJob) PENDING None now\<rparr>)
          else s)"

text \<open>
  \<open>processJob\<close> from the settled race on: the \<open>try\<close> block for a resolved result, the
  \<open>catch\<close> block for a rejection, and the \<open>finally\<close> block.
\<close>

definition processJob_finish :: "Scheduler \<Rightarrow> Job \<Rightarrow> RaceResult \<Rightarrow> int \<Rightarrow> Scheduler" where
  "processJob_finish s job res now =
     (let s =
        (case res of
           Resolved result \<Rightarrow>
             if success result then
               emit (s\<lparr>jobs := updateJobStatus (jobs s) (job_id job) COMPLETED None now\<rparr>)
                 JOB_COMPLETED job
             else
               (let errorMessage =
                      (case error result of Some m \<Rightarrow> m
                       | None \<Rightarrow> ''Job failed without error details'');
                    s = s\<lparr>jobs := updateJobStatus (jobs s) (job_id job) FAILED (Some errorMessage) now\<rparr>;
                    s = retry_after_result s (job_id job) now
                in emit s JOB_FAILED job)
         | Rejected e \<Rightarrow>
             (let errorMessage = (case e of Some m \<Rightarrow> m | None \<Rightarrow> ''Unknown error'');
                  s = s\<lparr>jobs := updateJobStatus (jobs s) (job_id job) FAILED (Some errorMessage) now\<rparr>;
                  s = retry_after_exception s (job_id job) now
              in emit s JOB_FAILED job))
      in s\<lparr>activeJobs := set_delete (activeJobs s) (job_id job)\<rparr>)"

text \<open>The whole of \<open>processJob\<close> for a handler that settles at once.\<close>

definition processJob :: "Scheduler \<Rightarrow> Job \<Rightarrow> int \<Rightarrow> Scheduler" where
  "processJob s job now =
     (case processJob_start s job now of
        (None, s') \<Rightarrow> s'
      | (Some handler, s') \<Rightarrow> processJob_finish s' job (race job (handler job)) now)"

subsection \<open>processNextJobs\<close>

text \<open>
  \<open>processNextJobs\<close> for a tick within which every started job runs to its end: each
  \<open>processJob\<close> call is taken whole, one after the other.
\<close>

definition processNextJobs :: "Scheduler \<Rightarrow> int \<Rightarrow> sched_error + Scheduler" where
  "processNextJobs s now =
     (if \<not> initialized s then Inl NotInitialized
      else if set_size (activeJobs s) \<ge> maxConcurrentJobs s then Inr s
      else (let availableSlots = maxConcurrentJobs s - set_size (activeJobs s);
                pendingJobs = getPendingJobs (jobs s) availableSlots now
            in Inr (foldl (\<lambda>s job. processJob s job now) s pendingJobs)))"

text \<open>Two ticks in a row; an error of the first ends the run.\<close>

definition two_ticks :: "Scheduler \<Rightarrow> int \<Rightarrow> int \<Rightarrow> sched_error + Scheduler" where
  "two_ticks s t1 t2 =
     (case processNextJobs s t1 of Inl e \<Rightarrow> Inl e | Inr s' \<Rightarrow> processNextJobs s' t2)"

section \<open>Overlapping calls\<close>

text \<open>
  \<open>processNextJobs\<close> and \<open>processJob\<close> are async functions, and \<open>processNextJobs\<close>
  calls \<open>processJob\<close> without awaiting it. A call runs without interruption from one
  \<open>await\<close> to the next; at an \<open>await\<close> it is suspended, other calls run, and it resumes
  when what it awaits has resolved. This section models the calls at that grain. A
  repository call takes effect on the collection when it is issued; \<open>suspended\<close> holds
  the calls waiting at an \<open>await\<close>, each with what it needs to go on.

  \<open>convertToJob\<close> leaves the document's \<open>_id\<close>, an ObjectId object, in the field \<open>id\<close>,
  so every fetched job brings an id object of its own, and the active-job set, a
  JavaScript \<open>Set\<close>, tells objects apart by identity, not by value. An id object is a
  number here (its identity) paired with the id's value; \<open>nextObject\<close> is the next unused
  identity. The set is the field \<open>activeSet\<close>; the field \<open>activeJobs\<close> of the embedded
  scheduler state is not used in this section.
\<close>

datatype FailurePath = ResultPath | CatchPath

datatype Suspended =
    AwaitPendingJobs "Job list"
  | AwaitNoHandlerWrite
  | AwaitRunningWrite nat Job JobHandler
  | AwaitIncrement nat Job JobHandler
  | AwaitRace nat Job RaceResult
  | AwaitCompletedWrite nat Job
  | AwaitFailedWrite nat Job FailurePath
  | AwaitReadBack nat Job FailurePath "Job option"
  | AwaitRetryWrite nat Job FailurePath Job nat

record EventLoop =
  scheduler :: Scheduler
  activeSet :: "(nat \<times> string) list"
  nextObject :: nat
  suspended :: "Suspended list"

definition active_has :: "(nat \<times> string) list \<Rightarrow> nat \<Rightarrow> bool" where
  "active_has xs obj \<longleftrightarrow> obj \<in> fst ` set xs"

definition active_add :: "(nat \<times> string) list \<Rightarrow> nat \<Rightarrow> string \<Rightarrow> (nat \<times> string) list" where
  "active_add xs obj v = (if active_has xs obj then xs else xs @ [(obj, v)])"

definition active_delete :: "(nat \<times> string) list \<Rightarrow> nat \<Rightarrow> (nat \<times> string) list" where
  "active_delete xs obj = filter (\<lambda>p. fst p \<noteq> obj) xs"

definition write_jobs :: "EventLoop \<Rightarrow> (Job list \<Rightarrow> Job list) \<Rightarrow> EventLoop" where
  "write_jobs st f = st\<lparr>scheduler := (scheduler st)\<lparr>jobs := f (jobs (scheduler st))\<rparr>\<rparr>"

definition emit_event :: "EventLoop \<Rightarrow> SchedulerEvent \<Rightarrow> Job \<Rightarrow> EventLoop" where
  "emit_event st ev job = st\<lparr>scheduler := emit (scheduler st) ev job\<rparr>"

definition suspend :: "EventLoop \<Rightarrow> Suspended \<Rightarrow> EventLoop" where
  "suspend st c = st\<lparr>suspended := suspended st @ [c]\<rparr>"

text \<open>The \<open>finally\<close> block of \<open>processJob\<close>.\<close>

definition finally_delete :: "EventLoop \<Rightarrow> nat \<Rightarrow> EventLoop" where
  "finally_delete st obj = st\<lparr>activeSet := active_delete (activeSet st) obj\<rparr>"

text \<open>
  A call of \<open>processNextJobs\<close>, up to its \<open>await\<close> of \<open>getPendingJobs\<close>: the check of
  the active-job set's size, the number of free slots, and the query, whose result the
  suspended call holds.
\<close>

definition call_processNextJobs :: "EventLoop \<Rightarrow> int \<Rightarrow> sched_error + EventLoop" where
  "call_processNextJobs st now =
     (if \<not> initialized (scheduler st) then Inl NotInitialized
      else if int (length (activeSet st)) \<ge> maxConcurrentJobs (scheduler st) then Inr st
      else (let availableSlots = maxConcurrentJobs (scheduler st) - int (length (activeSet st));
                pendingJobs = getPendingJobs (jobs (scheduler st)) availableSlots now
            in Inr (suspend st (AwaitPendingJobs pendingJobs))))"

text \<open>
  A call of \<open>processJob\<close> on a job whose id object is \<open>obj\<close>, up to its first \<open>await\<close>:
  the guard, the lookup of the handler, and the first write.
\<close>

definition call_processJob :: "EventLoop \<Rightarrow> nat \<Rightarrow> Job \<Rightarrow> int \<Rightarrow> EventLoop" where
  "call_processJob st obj job now =
     (if active_has (activeSet st) obj then st
      else (case jobHandlers (scheduler st) (name job) of
              None \<Rightarrow>
                suspend
                  (write_jobs st (\<lambda>coll. updateJobStatus coll (job_id job) FAILED
                     (Some (''No handler registered for job type: '' @ name job)) now))
                  AwaitNoHandlerWrite
            | Some handler \<Rightarrow>
                suspend (write_jobs st (\<lambda>coll. updateJobStatus coll (job_id job) RUNNING None now))
                  (AwaitRunningWrite obj job handler)))"

text \<open>
  What a suspended call does when it resumes, up to its next \<open>await\<close> or its end. The
  resumed \<open>processNextJobs\<close> gives each fetched job a new id object and calls
  \<open>processJob\<close> on it; with that its own work is done.
\<close>

fun resume :: "EventLoop \<Rightarrow> Suspended \<Rightarrow> int \<Rightarrow> EventLoop" where
  "resume st (AwaitPendingJobs pendingJobs) now =
     foldl (\<lambda>st job. call_processJob (st\<lparr>nextObject := Suc (nextObject st)\<rparr>) (nextObject st) job now)
       st pendingJobs"
| "resume st AwaitNoHandlerWrite now = st"
| "resume st (AwaitRunningWrite obj job handler) now =
     suspend
       (write_jobs (st\<lparr>activeSet := active_add (activeSet st) obj (job_id job)\<rparr>)
          (\<lambda>coll. incrementJobAttempts coll (job_id job) now))
       (AwaitIncrement obj job handler)"
| "resume st (AwaitIncrement obj job handler) now =
     suspend (emit_event st JOB_STARTED job) (AwaitRace obj job (race job (handler job)))"
| "resume st (AwaitRace obj job res) now =
     (case res of
        Resolved result \<Rightarrow>
          if success result then
            suspend (write_jobs st (\<lambda>coll. updateJobStatus coll (job_id job) COMPLETED None now))
              (AwaitCompletedWrite obj job)
          else
            (let errorMessage =
                   (case error result of Some m \<Rightarrow> m
                    | None \<Rightarrow> ''Job failed without error details'')
             in suspend
                  (write_jobs st (\<lambda>coll. updateJobStatus coll (job_id job) FAILED (Some errorMessage) now))
                  (AwaitFailedWrite obj job ResultPath))
      | Rejected e \<Rightarrow>
          (let errorMessage = (case e of Some m \<Rightarrow> m | None \<Rightarrow> ''Unknown error'')
           in suspend
                (write_jobs st (\<lambda>coll. updateJobStatus coll (job_id job) FAILED (Some errorMessage) now))
                (AwaitFailedWrite obj job CatchPath)))"
| "resume st (AwaitCompletedWrite obj job) now =
     finally_delete (emit_event st JOB_COMPLETED job) obj"
| "resume st (AwaitFailedWrite obj job path) now =
     suspend st (AwaitReadBack obj job path (getJobById (jobs (scheduler st)) (job_id job)))"
| "resume st (AwaitReadBack obj job path None) now =
     finally_delete (emit_event st JOB_FAILED job) obj"
| "resume st (AwaitReadBack obj job path (Some updatedJob)) now =
     (if attempts updatedJob < maxRetries updatedJob then
        suspend (write_jobs st (\<lambda>coll. updateJobStatus coll (job_id updatedJob) PENDING None now))
          (AwaitRetryWrite obj job path updatedJob 1)
      else finally_delete (emit_event st JOB_FAILED job) obj)"
| "resume st (AwaitRetryWrite obj job path updatedJob n) now =
     (if path = ResultPath \<and> n = 1 then
        suspend (write_jobs st (\<lambda>coll. updateJobStatus coll (job_id updatedJob) PENDING None now))
          (AwaitRetryWrite obj job path updatedJob 2)
      else finally_delete (emit_event st JOB_FAILED job) obj)"

text \<open>
  One thing happens at a time: a caller calls \<open>processNextJobs\<close>, or the suspended call
  at position \<open>k\<close> resumes. A call that raises leaves the state as it was.
\<close>

datatype Action = CallProcessNextJobs int | Resume nat int

definition resume_at :: "EventLoop \<Rightarrow> nat \<Rightarrow> int \<Rightarrow> EventLoop" where
  "resume_at st k now =
     (if k < length (suspended st) then
        resume (st\<lparr>suspended := take k (suspended st) @ drop (Suc k) (suspended st)\<rparr>)
          (suspended st ! k) now
      else st)"

fun run :: "EventLoop \<Rightarrow> Action list \<Rightarrow> EventLoop" where
  "run st [] = st"
| "run st (CallProcessNextJobs now # as) =
     (case call_processNextJobs st now of Inl e \<Rightarrow> run st as | Inr st' \<Rightarrow> run st' as)"
| "run st (Resume k now # as) = run (resume_at st k now) as"

definition start_loop :: "Scheduler \<Rightarrow> EventLoop" where
  "start_loop s = \<lparr> scheduler = s, activeSet = [], nextObject = 0, suspended = [] \<rparr>"

section \<open>Reference notions and sample data\<close>

text \<open>A local midnight is an instant whose local time of day is zero.\<close>

definition is_midnight :: "Zone \<Rightarrow> int \<Rightarrow> bool" where
  "is_midnight z t \<longleftrightarrow> TimeWithinDay (LocalTime z t) = 0"

text \<open>
  A zone is steady around \<open>T\<close>, with offset \<open>tz\<close>, when it has that one offset at every
  UTC instant within two days of \<open>T\<close> and for every local time within two days of the
  local time of \<open>T\<close>.
\<close>

definition steady_zone :: "Zone \<Rightarrow> int \<Rightarrow> int \<Rightarrow> bool" where
  "steady_zone z tz T \<longleftrightarrow>
     (\<forall>t. \<bar>t - T\<bar> \<le> 2 * msPerDay \<longrightarrow> offsetUTC z t = tz)
     \<and> (\<forall>t. \<bar>t - (T + tz)\<bar> \<le> 2 * msPerDay \<longrightarrow> offsetLocal z t = tz)"

text \<open>
  New York in the autumn of 2021: daylight time (UTC-4) ends on 7 November at 06:00 UTC,
  when the local clock goes from 02:00 back to 01:00. Havana in the same autumn: daylight
  time (UTC-4) ends on 7 November at 05:00 UTC, when the local clock goes from 01:00 back
  to 00:00, so that day has two local midnights.
\<close>

definition new_york_autumn :: Zone where
  "new_york_autumn = changing_zone 1636264800000 (- 14400000) (- 18000000)"

definition havana_autumn :: Zone where
  "havana_autumn = changing_zone 1636261200000 (- 14400000) (- 18000000)"

text \<open>
  A cast that accepts the strings of 24 hexadecimal digits, which are ObjectId values in
  every version of the driver, and nothing else; the value is the string in lower case.
\<close>

definition hex_lower :: "char \<Rightarrow> char" where
  "hex_lower c = (if c \<in> set ''ABCDEF'' then char_of (of_char c + (32::nat)) else c)"

definition cast_hex24 :: IdCast where
  "cast_hex24 v =
     (if length v = 24 \<and> (\<forall>c \<in> set v. c \<in> set ''0123456789abcdefABCDEF'')
      then Some (map hex_lower v) else None)"

definition sample_id :: string where
  "sample_id = ''507f1f77bcf86cd799439011''"

text \<open>The five patterns the calculator is meant to recognise.\<close>

definition canonical_patterns :: "string list" where
  "canonical_patterns =
     [''* * * * *'', ''0 * * * *'', ''0 0 * * *'', ''0 0 * * 0'', ''0 0 1 * *'']"

text \<open>The condition under which \<open>getNextRunTime\<close> reaches its last branch.\<close>

definition falls_back :: "string \<Rightarrow> bool" where
  "falls_back cronExpr \<longleftrightarrow>
     (let parts = split_on CHR '' '' cronExpr
      in cronExpr \<noteq> ''* * * * *''
         \<and> \<not> (part_is parts 0 ''0'' \<and> part_is parts 1 ''*'')
         \<and> \<not> (part_is parts 0 ''0'' \<and> part_is parts 1 ''0''
               \<and> (part_is parts 2 ''*'' \<or> part_is parts 4 ''0'' \<or> part_is parts 2 ''1'')))"

text \<open>A running scheduler with ten slots, nothing in flight and nothing emitted yet.\<close>

definition sample_scheduler :: "Job list \<Rightarrow> (string \<Rightarrow> JobHandler option) \<Rightarrow> Scheduler" where
  "sample_scheduler coll handlers =
     \<lparr> initialized = True, jobHandlers = handlers, activeJobs = [], maxConcurrentJobs = 10,
       jobs = coll, recurringJobs = [], emitted = [] \<rparr>"

definition sample_options :: "JobPriority \<Rightarrow> int \<Rightarrow> JobOptions" where
  "sample_options p r =
     \<lparr> opt_priority = Some p, opt_maxRetries = Some r, opt_retryDelay = None, opt_timeout = None \<rparr>"

definition zero_options :: JobOptions where
  "zero_options =
     \<lparr> opt_priority = None, opt_maxRetries = Some 0, opt_retryDelay = Some 0, opt_timeout = Some 0 \<rparr>"

definition always_throws :: JobHandler where
  "always_throws job = Throws (Some ''boom'')"

definition throwing_handlers :: "string \<Rightarrow> JobHandler option" where
  "throwing_handlers nm = (if nm = ''work'' then Some always_throws else None)"

text \<open>A job of type \<open>work\<close> as \<open>createJob\<close> makes it, saved at time 0.\<close>

definition sample_job :: "string \<Rightarrow> JobPriority \<Rightarrow> int \<Rightarrow> int \<Rightarrow> Job" where
  "sample_job i p r at = new_job i ''work'' ''{}'' at (Some (sample_options p r)) None 0"

definition always_fails :: JobHandler where
  "always_fails job = Returns \<lparr> success = False, error = Some ''nope'' \<rparr>"

definition failing_handlers :: "string \<Rightarrow> JobHandler option" where
  "failing_handlers nm = (if nm = ''work'' then Some always_fails else None)"

text \<open>
  Two calls of \<open>processNextJobs\<close>, the second made when the first has returned: the first
  call's query resolves and the job it fetched is started; the second call passes its
  check; then the started job's write resolves, the second call's query resolves, and
  the second job's write resolves.
\<close>

definition two_calls :: "Action list" where
  "two_calls =
     [CallProcessNextJobs 10, Resume 0 10, CallProcessNextJobs 10, Resume 0 10, Resume 0 10,
      Resume 1 10]"

text \<open>
  One job whose handler reports a failure, taken through its first run up to the first
  retry write; then a call of \<open>processNextJobs\<close>; then, each in the order in which what
  it awaits was issued: the first retry write resolves, the query resolves and the job is
  started again, and the new call's write resolves.
\<close>

definition retry_then_call :: "Action list" where
  "retry_then_call =
     [CallProcessNextJobs 10, Resume 0 10, Resume 0 10, Resume 0 10, Resume 0 10, Resume 0 10,
      Resume 0 10, CallProcessNextJobs 20, Resume 0 20, Resume 0 20, Resume 1 20]"

text \<open>The failure cases of a settled race, and the message \<open>processJob\<close> persists for each.\<close>

definition is_failure :: "RaceResult \<Rightarrow> bool" where
  "is_failure res = (case res of Resolved result \<Rightarrow> \<not> success result | Rejected e \<Rightarrow> True)"

definition failure_message :: "RaceResult \<Rightarrow> string" where
  "failure_message res =
     (case res of
        Resolved result \<Rightarrow>
          (case error result of Some m \<Rightarrow> m | None \<Rightarrow> ''Job failed without error details'')
      | Rejected e \<Rightarrow> (case e of Some m \<Rightarrow> m | None \<Rightarrow> ''Unknown error''))"

text \<open>The job collection after a call that may have raised.\<close>

definition jobs_after :: "sched_error + Scheduler \<Rightarrow> Job list" where
  "jobs_after r = (case r of Inl e \<Rightarrow> [] | Inr s \<Rightarrow> jobs s)"

definition no_handlers :: "string \<Rightarrow> JobHandler option" where
  "no_handlers nm = None"

section \<open>Facts about the job collection\<close>

lemma job_id_update_doc: "job_id (update_doc st msg now j) = job_id j"
  by (simp add: update_doc_def)

lemma getJobById_findByIdAndUpdate:
  assumes "\<And>j. job_id (f j) = job_id j"
  shows "getJobById (findByIdAndUpdate coll i f) k
         = (if k = i then map_option f (getJobById coll i) else getJobById coll k)"
  by (induction coll) (auto simp: assms)

lemma getJobById_updateJobStatus:
  "getJobById (updateJobStatus coll i st msg now) k
   = (if k = i then map_option (update_doc st msg now) (getJobById coll i) else getJobById coll k)"
  unfolding updateJobStatus_def
  by (rule getJobById_findByIdAndUpdate) (rule job_id_update_doc)

lemma getJobById_incrementJobAttempts:
  "getJobById (incrementJobAttempts coll i now) k
   = (if k = i
      then map_option (\<lambda>j. j\<lparr>attempts := attempts j + 1, updatedAt := now\<rparr>) (getJobById coll i)
      else getJobById coll k)"
  unfolding incrementJobAttempts_def
  by (rule getJobById_findByIdAndUpdate) simp

lemma getJobById_Some_id: "getJobById coll i = Some j \<Longrightarrow> job_id j = i"
  by (induction coll) (auto split: if_splits)

lemma length_deleteOne: "getJobById coll i = Some j \<Longrightarrow> length (deleteOne coll i) + 1 = length coll"
  by (induction coll) (auto split: if_splits)

lemma getJobById_None_iff: "getJobById coll i = None \<longleftrightarrow> i \<notin> job_id ` set coll"
  by (induction coll) auto

lemma getJobById_deleteOne:
  "distinct (map job_id coll) \<Longrightarrow> getJobById (deleteOne coll i) i = None"
  by (induction coll) (auto simp: getJobById_None_iff)

lemma getJobById_deleteOne_other:
  "k \<noteq> i \<Longrightarrow> getJobById (deleteOne coll i) k = getJobById coll k"
  by (induction coll) auto

lemma num_or_nonzero: "d \<noteq> 0 \<Longrightarrow> num_or x d \<noteq> 0"
  by (cases x) auto

section \<open>Facts about the retry check and the end of a job\<close>

lemma update_doc_PENDING:
  "update_doc PENDING msg now j = j\<lparr>status := PENDING, updatedAt := now\<rparr>"
  by (simp add: update_doc_def)

lemma update_doc_FAILED_fields:
  "status (update_doc FAILED msg now j) = FAILED"
  "attempts (update_doc FAILED msg now j) = attempts j"
  "maxRetries (update_doc FAILED msg now j) = maxRetries j"
  "scheduledAt (update_doc FAILED msg now j) = scheduledAt j"
  by (simp_all add: update_doc_def)

lemma retry_after_result_job:
  assumes "getJobById (jobs s) jobId = Some j"
  shows "getJobById (jobs (retry_after_result s jobId now)) k
         = (if k = jobId \<and> attempts j < maxRetries j
            then Some (j\<lparr>status := PENDING, updatedAt := now\<rparr>)
            else getJobById (jobs s) k)"
  using assms getJobById_Some_id [OF assms]
  by (simp add: retry_after_result_def Let_def getJobById_updateJobStatus update_doc_PENDING)

lemma retry_after_exception_job:
  assumes "getJobById (jobs s) jobId = Some j"
  shows "getJobById (jobs (retry_after_exception s jobId now)) k
         = (if k = jobId \<and> attempts j < maxRetries j
            then Some (j\<lparr>status := PENDING, updatedAt := now\<rparr>)
            else getJobById (jobs s) k)"
  using assms getJobById_Some_id [OF assms]
  by (simp add: retry_after_exception_def Let_def getJobById_updateJobStatus update_doc_PENDING)

lemma retry_after_result_frame:
  "retry_after_result s jobId now = s\<lparr>jobs := jobs (retry_after_result s jobId now)\<rparr>"
  by (simp add: retry_after_result_def Let_def split: option.splits)

lemma retry_after_exception_frame:
  "retry_after_exception s jobId now = s\<lparr>jobs := jobs (retry_after_exception s jobId now)\<rparr>"
  by (simp add: retry_after_exception_def Let_def split: option.splits)

lemma processJob_finish_failure_job:
  assumes "is_failure res" and "getJobById (jobs s) (job_id job) = Some j"
  shows "getJobById (jobs (processJob_finish s job res now)) (job_id job)
         = Some (if attempts j < maxRetries j
                 then (update_doc FAILED (Some (failure_message res)) now j)
                        \<lparr>status := PENDING, updatedAt := now\<rparr>
                 else update_doc FAILED (Some (failure_message res)) now j)"
proof -
  let ?f = "s\<lparr>jobs := updateJobStatus (jobs s) (job_id job) FAILED (Some (failure_message res)) now\<rparr>"
  have g: "getJobById (jobs ?f) (job_id job) = Some (update_doc FAILED (Some (failure_message res)) now j)"
    using assms(2) by (simp add: getJobById_updateJobStatus)
  show ?thesis
  proof (cases res)
    case (Resolved result)
    with assms(1) have ns: "\<not> success result" by (simp add: is_failure_def)
    have "jobs (processJob_finish s job res now) = jobs (retry_after_result ?f (job_id job) now)"
      using Resolved ns by (simp add: processJob_finish_def Let_def emit_def failure_message_def)
    then show ?thesis
      using g by (simp add: retry_after_result_job [OF g] update_doc_FAILED_fields)
  next
    case (Rejected e)
    have "jobs (processJob_finish s job res now) = jobs (retry_after_exception ?f (job_id job) now)"
      using Rejected by (simp add: processJob_finish_def Let_def emit_def failure_message_def)
    then show ?thesis
      using g by (simp add: retry_after_exception_job [OF g] update_doc_FAILED_fields)
  qed
qed

lemma processJob_finish_inactive:
  "job_id job \<notin> set (activeJobs (processJob_finish s job res now))"
proof -
  have "activeJobs (retry_after_result s' i n) = activeJobs s'" for s' i n
    by (simp add: retry_after_result_def Let_def split: option.splits)
  moreover have "activeJobs (retry_after_exception s' i n) = activeJobs s'" for s' i n
    by (simp add: retry_after_exception_def Let_def split: option.splits)
  ultimately show ?thesis
    by (simp add: processJob_finish_def Let_def emit_def set_delete_def
        split: RaceResult.splits)
qed

lemma getPendingJobs_subset: "set (getPendingJobs coll lim now) \<subseteq> {j \<in> set coll. is_due now j}"
proof -
  have 1: "set (insort_job a xs) = insert a (set xs)" for a xs
    by (induction xs) auto
  have 2: "set (sort_jobs xs) = set xs" for xs
    by (induction xs) (auto simp: 1)
  have "set (limit_docs lim xs) \<subseteq> set xs" for xs :: "Job list"
    by (auto simp: limit_docs_def dest: in_set_takeD)
  from this [of "sort_jobs (filter (is_due now) coll)"] show ?thesis
    by (auto simp: getPendingJobs_def 2)
qed

lemma getPendingJobs_pending: "j \<in> set (getPendingJobs coll lim t) \<Longrightarrow> status j = PENDING"
  using getPendingJobs_subset [of coll lim t] by (auto simp: is_due_def)

section \<open>Facts about dates\<close>

lemma div_minute: "(t::int) div 60000 = t div 1000 div 60"
  by (simp add: zdiv_zmult2_eq [symmetric])

lemma div_hour: "(t::int) div 3600000 = t div 1000 div 60 div 60"
  by (simp add: zdiv_zmult2_eq [symmetric])

lemma div_day: "(t::int) div 86400000 = t div 1000 div 60 div 60 div 24"
  by (simp add: zdiv_zmult2_eq [symmetric])

lemma time_decomp:
  "MakeDate (Day t) (MakeTime (HourFromTime t) (MinFromTime t) (SecFromTime t) (msFromTime t)) = t"
proof -
  define a where "a = t div 1000"
  define b where "b = a div 60"
  define c where "c = b div 60"
  define e where "e = c div 24"
  have 1: "t = a * 1000 + t mod 1000" unfolding a_def by simp
  have 2: "a = b * 60 + a mod 60" unfolding b_def by simp
  have 3: "b = c * 60 + b mod 60" unfolding c_def by simp
  have 4: "c = e * 24 + c mod 24" unfolding e_def by simp
  have "e * 86400000 + (c mod 24 * 3600000 + b mod 60 * 60000 + a mod 60 * 1000 + t mod 1000) = t"
    using 1 2 3 4 by linarith
  then show ?thesis
    unfolding MakeDate_def MakeTime_def Day_def HourFromTime_def MinFromTime_def SecFromTime_def
      msFromTime_def msPerDay_def msPerHour_def msPerMinute_def msPerSecond_def
      div_minute div_hour div_day a_def b_def c_def e_def
    by simp
qed

text \<open>Each setter moves the local time by the difference of the field and reads it back.\<close>

lemma setMinutes_local:
  "setMinutes z d m = UTC z (LocalTime z d + (m - MinFromTime (LocalTime z d)) * msPerMinute)"
proof -
  let ?t = "LocalTime z d"
  have "MakeDate (Day ?t) (MakeTime (HourFromTime ?t) m (SecFromTime ?t) (msFromTime ?t))
        = MakeDate (Day ?t) (MakeTime (HourFromTime ?t) (MinFromTime ?t) (SecFromTime ?t) (msFromTime ?t))
          + (m - MinFromTime ?t) * msPerMinute"
    by (simp add: MakeDate_def MakeTime_def algebra_simps)
  then show ?thesis
    by (simp add: setMinutes_def time_decomp Let_def)
qed

lemma setSeconds_local:
  "setSeconds z d s = UTC z (LocalTime z d + (s - SecFromTime (LocalTime z d)) * msPerSecond)"
proof -
  let ?t = "LocalTime z d"
  have "MakeDate (Day ?t) (MakeTime (HourFromTime ?t) (MinFromTime ?t) s (msFromTime ?t))
        = MakeDate (Day ?t) (MakeTime (HourFromTime ?t) (MinFromTime ?t) (SecFromTime ?t) (msFromTime ?t))
          + (s - SecFromTime ?t) * msPerSecond"
    by (simp add: MakeDate_def MakeTime_def algebra_simps)
  then show ?thesis
    by (simp add: setSeconds_def time_decomp Let_def)
qed

lemma setMilliseconds_local:
  "setMilliseconds z d ms = UTC z (LocalTime z d + (ms - msFromTime (LocalTime z d)))"
proof -
  let ?t = "LocalTime z d"
  have "MakeDate (Day ?t) (MakeTime (HourFromTime ?t) (MinFromTime ?t) (SecFromTime ?t) ms)
        = MakeDate (Day ?t) (MakeTime (HourFromTime ?t) (MinFromTime ?t) (SecFromTime ?t) (msFromTime ?t))
          + (ms - msFromTime ?t)"
    by (simp add: MakeDate_def MakeTime_def algebra_simps)
  then show ?thesis
    by (simp add: setMilliseconds_def time_decomp Let_def)
qed

lemma setHours_local:
  "setHours z d h = UTC z (LocalTime z d + (h - HourFromTime (LocalTime z d)) * msPerHour)"
proof -
  let ?t = "LocalTime z d"
  have "MakeDate (Day ?t) (MakeTime h (MinFromTime ?t) (SecFromTime ?t) (msFromTime ?t))
        = MakeDate (Day ?t) (MakeTime (HourFromTime ?t) (MinFromTime ?t) (SecFromTime ?t) (msFromTime ?t))
          + (h - HourFromTime ?t) * msPerHour"
    by (simp add: MakeDate_def MakeTime_def algebra_simps)
  then show ?thesis
    by (simp add: setHours_def time_decomp Let_def)
qed

lemma setDate_local:
  "setDate z d dt = UTC z (LocalTime z d + (dt - DateFromTime (LocalTime z d)) * msPerDay)"
proof -
  let ?t = "LocalTime z d"
  have "Day ?t * msPerDay + TimeWithinDay ?t = ?t"
    by (simp add: Day_def TimeWithinDay_def)
  then have "MakeDate (MakeDay (YearFromTime ?t) (MonthFromTime ?t) dt) (TimeWithinDay ?t)
             = ?t + (dt - DateFromTime ?t) * msPerDay"
    by (simp add: DateFromTime_def MakeDay_def MakeDate_def algebra_simps)
  then show ?thesis
    by (simp add: setDate_def Let_def)
qed

text \<open>In a steady zone local time is UTC plus the offset, both ways, near \<open>T\<close>.\<close>

lemma steady_LocalTime:
  "steady_zone z tz T \<Longrightarrow> \<bar>d - T\<bar> \<le> 172800000 \<Longrightarrow> LocalTime z d = d + tz"
  by (simp add: steady_zone_def LocalTime_def msPerDay_def)

lemma steady_UTC:
  "steady_zone z tz T \<Longrightarrow> \<bar>L - (T + tz)\<bar> \<le> 172800000 \<Longrightarrow> UTC z L = L - tz"
  by (simp add: steady_zone_def UTC_def msPerDay_def)

lemma steady_fixed_zone: "steady_zone (fixed_zone tz) tz T"
  by (simp add: steady_zone_def fixed_zone_def)

lemma floor_minute:
  "(L::int) - (L div 1000 mod 60) * 1000 - (L - (L div 1000 mod 60) * 1000) mod 1000
   = L div 60000 * 60000"
proof -
  define a where "a = L div 1000"
  have 1: "L = a * 1000 + L mod 1000" unfolding a_def by simp
  have 2: "a = a div 60 * 60 + a mod 60" by simp
  have "L - (a mod 60) * 1000 = (a div 60 * 60) * 1000 + L mod 1000"
    using 1 2 by linarith
  moreover have "((a div 60 * 60) * 1000 + L mod 1000) mod 1000 = L mod 1000"
    by (simp only: mod_mult_self3 mod_mod_trivial)
  ultimately have "L - (a mod 60) * 1000 - (L - (a mod 60) * 1000) mod 1000 = a div 60 * 60000"
    by simp
  then show ?thesis unfolding a_def div_minute .
qed

lemma minute_floor_gt: "(L::int) < (L div 60000 + 1) * 60000"
proof -
  have "L = L div 60000 * 60000 + L mod 60000" by simp
  moreover have "L mod 60000 < 60000" by simp
  moreover have "(L div 60000 + 1) * 60000 = L div 60000 * 60000 + 60000"
    by (simp add: distrib_right)
  ultimately show ?thesis by linarith
qed

lemma minute_floor_le: "((L::int) div 60000) * 60000 \<le> L"
proof -
  have "L = L div 60000 * 60000 + L mod 60000" by simp
  moreover have "0 \<le> L mod 60000" by simp
  ultimately show ?thesis by linarith
qed

lemma round_forward_eq:
  assumes "steady_zone z tz T"
  shows "round_forward z T = ((T + tz) div 60000 + 1) * 60000 - tz"
proof -
  define L1 where "L1 = T + tz + 60000"
  define L2 where "L2 = L1 - (L1 div 1000 mod 60) * 1000"
  define L3 where "L3 = L2 - L2 mod 1000"
  have s1: "0 \<le> L1 div 1000 mod 60" "L1 div 1000 mod 60 < 60" by simp_all
  have s2: "0 \<le> L2 mod 1000" "L2 mod 1000 < 1000" by simp_all
  have b2: "L1 - 59000 \<le> L2" "L2 \<le> L1" using s1 unfolding L2_def by linarith+
  have b3: "L2 - 999 \<le> L3" "L3 \<le> L2" using s2 unfolding L3_def by linarith+
  have l0: "LocalTime z T = T + tz"
    using assms by (rule steady_LocalTime) simp
  have d1: "setMinutes z T (getMinutes z T + 1) = L1 - tz"
  proof -
    have "UTC z L1 = L1 - tz"
      using assms by (rule steady_UTC) (simp add: L1_def)
    then show ?thesis
      by (simp add: setMinutes_local getMinutes_def l0 L1_def msPerMinute_def)
  qed
  have l1: "LocalTime z (L1 - tz) = L1"
    using steady_LocalTime [OF assms, of "L1 - tz"] by (simp add: L1_def)
  have d2: "setSeconds z (L1 - tz) 0 = L2 - tz"
  proof -
    have "UTC z L2 = L2 - tz"
      using assms by (rule steady_UTC) (use b2 in \<open>simp add: L1_def\<close>)
    then show ?thesis
      by (simp add: setSeconds_local l1 L2_def SecFromTime_def msPerSecond_def)
  qed
  have l2: "LocalTime z (L2 - tz) = L2"
    using steady_LocalTime [OF assms, of "L2 - tz"] b2 by (simp add: L1_def)
  have d3: "setMilliseconds z (L2 - tz) 0 = L3 - tz"
  proof -
    have "UTC z L3 = L3 - tz"
      using assms by (rule steady_UTC) (use b2 b3 in \<open>simp add: L1_def\<close>)
    then show ?thesis
      by (simp add: setMilliseconds_local l2 L3_def msFromTime_def msPerSecond_def)
  qed
  have "round_forward z T = L3 - tz"
    by (simp add: round_forward_def Let_def d1 d2 d3)
  also have "L3 = L1 div 60000 * 60000"
    unfolding L3_def L2_def by (rule floor_minute)
  also have "L1 div 60000 = (T + tz) div 60000 + 1"
    unfolding L1_def by simp
  finally show ?thesis .
qed

lemma round_forward_bounds:
  assumes "steady_zone z tz T"
  shows "T < round_forward z T" and "round_forward z T \<le> T + 60000"
  using minute_floor_gt [of "T + tz"] minute_floor_le [of "T + tz"]
  by (simp_all add: round_forward_eq [OF assms] distrib_right)

lemma fallback_eq:
  assumes "steady_zone z tz T" and "falls_back cronExpr"
  shows "getNextRunTime z cronExpr T = round_forward z T + 300000"
proof -
  define K where "K = (T + tz) div 60000 + 1"
  have r: "round_forward z T = K * 60000 - tz"
    by (simp add: round_forward_eq [OF assms(1)] K_def)
  have k: "T + tz < K * 60000" "K * 60000 \<le> T + tz + 60000"
    using round_forward_bounds [OF assms(1)] unfolding r by linarith+
  have l: "LocalTime z (K * 60000 - tz) = K * 60000"
    using steady_LocalTime [OF assms(1), of "K * 60000 - tz"] k by simp
  have u: "UTC z (K * 60000 + 300000) = K * 60000 + 300000 - tz"
    using assms(1) by (rule steady_UTC) (use k in simp)
  have "getNextRunTime z cronExpr T
        = setMinutes z (round_forward z T) (getMinutes z (round_forward z T) + 5)"
    using assms(2) unfolding getNextRunTime_def falls_back_def Let_def by auto
  also have "\<dots> = K * 60000 + 300000 - tz"
    by (simp add: r setMinutes_local getMinutes_def l u msPerMinute_def)
  finally show ?thesis by (simp add: r)
qed

lemma split_daily: "split_on CHR '' '' ''0 0 * * *'' = [''0'', ''0'', ''*'', ''*'', ''*'']"
  by simp

lemma daily_eq:
  assumes "steady_zone z tz T"
  shows "getNextRunTime z ''0 0 * * *'' T
         = (((T + tz) div 60000 + 1) div 1440 + 1) * 86400000 - tz"
proof -
  define K where "K = (T + tz) div 60000 + 1"
  define L3 where "L3 = K * 60000"
  define L4 where "L4 = (K div 60) * 3600000"
  define L5 where "L5 = (K div 1440) * 86400000"
  have r: "round_forward z T = L3 - tz"
    by (simp add: round_forward_eq [OF assms] K_def L3_def)
  have k: "T + tz < L3" "L3 \<le> T + tz + 60000"
    using round_forward_bounds [OF assms] unfolding r by linarith+
  have km: "K = K div 60 * 60 + K mod 60" "0 \<le> K mod 60" "K mod 60 < 60" by simp_all
  have e4: "L4 = L3 - (K mod 60) * 60000"
    unfolding L3_def L4_def using km(1) by linarith
  have b4: "L3 - 3540000 \<le> L4" "L4 \<le> L3"
    using km(2,3) unfolding e4 by linarith+
  have hm: "K div 60 = K div 60 div 24 * 24 + K div 60 mod 24"
    "0 \<le> K div 60 mod 24" "K div 60 mod 24 < 24" by simp_all
  have dd: "K div 60 div 24 = K div 1440"
    by (simp add: zdiv_zmult2_eq [symmetric])
  have e5: "L5 = L4 - (K div 60 mod 24) * 3600000"
    unfolding L4_def L5_def dd [symmetric] using hm(1) by linarith
  have b5: "L4 - 82800000 \<le> L5" "L5 \<le> L4"
    using hm(2,3) unfolding e5 by linarith+
  have l3: "LocalTime z (L3 - tz) = L3"
    using steady_LocalTime [OF assms, of "L3 - tz"] k by simp
  have m3: "MinFromTime L3 = K mod 60"
    by (simp add: MinFromTime_def L3_def msPerMinute_def)
  have d4: "setMinutes z (L3 - tz) 0 = L4 - tz"
  proof -
    have "UTC z L4 = L4 - tz"
      using assms by (rule steady_UTC) (use k b4 in simp)
    then show ?thesis
      by (simp add: setMinutes_local l3 m3 e4 msPerMinute_def)
  qed
  have l4: "LocalTime z (L4 - tz) = L4"
    using steady_LocalTime [OF assms, of "L4 - tz"] k b4 by simp
  have h4: "HourFromTime L4 = K div 60 mod 24"
    by (simp add: HourFromTime_def L4_def msPerHour_def)
  have d5: "setHours z (L4 - tz) 0 = L5 - tz"
  proof -
    have "UTC z L5 = L5 - tz"
      using assms by (rule steady_UTC) (use k b4 b5 in simp)
    then show ?thesis
      by (simp add: setHours_local l4 h4 e5 msPerHour_def)
  qed
  have l5: "LocalTime z (L5 - tz) = L5"
    using steady_LocalTime [OF assms, of "L5 - tz"] k b4 b5 by simp
  have d6: "setDate z (L5 - tz) (getDate z (L5 - tz) + 1) = L5 + 86400000 - tz"
  proof -
    have "UTC z (L5 + 86400000) = L5 + 86400000 - tz"
      using assms by (rule steady_UTC) (use k b4 b5 in simp)
    then show ?thesis
      by (simp add: setDate_local getDate_def l5 msPerDay_def)
  qed
  have "getNextRunTime z ''0 0 * * *'' T
        = setDate z (setHours z (setMinutes z (L3 - tz) 0) 0)
            (getDate z (setHours z (setMinutes z (L3 - tz) 0) 0) + 1)"
    unfolding getNextRunTime_def split_daily
    by (simp add: part_is_def Let_def r)
  also have "\<dots> = L5 + 86400000 - tz"
    by (simp add: d4 d5 d6)
  finally show ?thesis
    by (simp add: L5_def K_def distrib_right)
qed

lemma next_multiple_least:
  fixes K q :: int
  assumes "K * 60000 < q * 86400000"
  shows "(K div 1440 + 1) * 86400000 \<le> q * 86400000"
proof -
  have "K < q * 1440" using assms by linarith
  then have "K div 1440 < q"
    by (simp add: div_less_iff_less_mult)
  then show ?thesis by simp
qed

lemma next_multiple_greater: "(K::int) * 60000 < (K div 1440 + 1) * 86400000"
proof -
  have "K = K div 1440 * 1440 + K mod 1440" by simp
  moreover have "K mod 1440 < 1440" by simp
  moreover have "(K div 1440 + 1) * 86400000 = K div 1440 * 1440 * 60000 + 1440 * 60000"
    by (simp add: distrib_right)
  ultimately show ?thesis by linarith
qed

lemma next_multiple_near: "((K::int) div 1440 + 1) * 86400000 \<le> K * 60000 + 86400000"
proof -
  have "K = K div 1440 * 1440 + K mod 1440" by simp
  moreover have "0 \<le> K mod 1440" by simp
  moreover have "(K div 1440 + 1) * 86400000 = K div 1440 * 1440 * 60000 + 1440 * 60000"
    by (simp add: distrib_right)
  ultimately show ?thesis by linarith
qed

section \<open>Job management operations\<close>

text \<open>
  Claim C6 as stated fails. The string \<open>a\<close> is no job's id, and \<open>cancelJob\<close> on it does
  not return false: the store cannot cast it to an ObjectId, the lookup raises a cast
  error, and \<open>cancelJob\<close> passes the error on.
\<close>

theorem cancelJob_cast_error_counterexample:
  "cast_hex24 ''a'' = None
   \<and> cancelJob cast_hex24 (sample_scheduler [] throwing_handlers) ''a'' = Inl (CastError ''a'')
   \<and> cancelJob cast_hex24 (sample_scheduler [] throwing_handlers) ''a''
       \<noteq> Inr (False, sample_scheduler [] throwing_handlers)"
  by (simp add: cancelJob_def cast_hex24_def sample_scheduler_def)

text \<open>
  Claim C6, amended. On an initialised scheduler, for every job id that the store casts
  to an ObjectId, \<open>cancelJob\<close> raises nothing. It returns true exactly when a job with
  that ObjectId exists and its status is \<open>PENDING\<close>; then the job's document is deleted
  (one document fewer, the id no longer found when ids are unique, every other id
  untouched). For an absent id and for a job in any other status it returns false and the
  scheduler state is unchanged. For a string that the store cannot cast to an ObjectId
  \<open>cancelJob\<close> raises the cast error.
\<close>

theorem cancelJob_iff_pending:
  assumes "initialized s"
  shows "(cast_id jobId = None \<longrightarrow> cancelJob cast_id s jobId = Inl (CastError jobId))
       \<and> (\<forall>oid. cast_id jobId = Some oid \<longrightarrow>
            ((\<exists>job. getJobById (jobs s) oid = Some job \<and> status job = PENDING) \<longrightarrow>
               (\<exists>s'. cancelJob cast_id s jobId = Inr (True, s')
                     \<and> jobs s' = deleteOne (jobs s) oid
                     \<and> length (jobs s') + 1 = length (jobs s)
                     \<and> (distinct (map job_id (jobs s)) \<longrightarrow> getJobById (jobs s') oid = None)
                     \<and> (\<forall>k. k \<noteq> oid \<longrightarrow> getJobById (jobs s') k = getJobById (jobs s) k)))
          \<and> (\<not> (\<exists>job. getJobById (jobs s) oid = Some job \<and> status job = PENDING) \<longrightarrow>
               cancelJob cast_id s jobId = Inr (False, s)))"
proof (cases "cast_id jobId")
  case None
  with assms show ?thesis by (simp add: cancelJob_def)
next
  case c: (Some oid)
  show ?thesis
  proof (cases "getJobById (jobs s) oid")
    case None
    with assms c show ?thesis by (simp add: cancelJob_def)
  next
    case (Some job)
    show ?thesis
    proof (cases "status job = PENDING")
      case False
      with Some assms c show ?thesis by (simp add: cancelJob_def)
    next
      case True
      have len: "length (deleteOne (jobs s) oid) + 1 = length (jobs s)"
        using Some by (rule length_deleteOne)
      then have ok: "int (length (jobs s)) - int (length (deleteOne (jobs s) oid)) = 1"
        by simp
      have "cancelJob cast_id s jobId
            = Inr (True, emit (s\<lparr>jobs := deleteOne (jobs s) oid\<rparr>) JOB_CANCELLED job)"
        using assms c Some True ok by (simp add: cancelJob_def deleteJob_def Let_def)
      then show ?thesis
        using c Some True len
        by (simp add: emit_def getJobById_deleteOne getJobById_deleteOne_other)
    qed
  qed
qed

theorem cancelJob_iff_pending_witness:
  "(\<exists>s'. cancelJob cast_hex24 (sample_scheduler [sample_job sample_id NORMAL 3 0] throwing_handlers)
            sample_id = Inr (True, s') \<and> jobs s' = [] \<and> getJobById (jobs s') sample_id = None)
   \<and> cancelJob cast_hex24
       (sample_scheduler [(sample_job sample_id NORMAL 3 0)\<lparr>status := RUNNING\<rparr>] throwing_handlers)
       sample_id
       = Inr (False,
           sample_scheduler [(sample_job sample_id NORMAL 3 0)\<lparr>status := RUNNING\<rparr>] throwing_handlers)
   \<and> cancelJob cast_hex24 (sample_scheduler [] throwing_handlers) sample_id
       = Inr (False, sample_scheduler [] throwing_handlers)
   \<and> cancelJob cast_hex24 (sample_scheduler [] throwing_handlers) ''a'' = Inl (CastError ''a'')"
proof -
  let ?p = "sample_job sample_id NORMAL 3 0"
  let ?r = "(sample_job sample_id NORMAL 3 0)\<lparr>status := RUNNING\<rparr>"
  have c: "cast_hex24 sample_id = Some sample_id" "cast_hex24 ''a'' = None"
    by (simp_all add: cast_hex24_def sample_id_def hex_lower_def)
  have i: "initialized (sample_scheduler [?p] throwing_handlers)"
    "initialized (sample_scheduler [?r] throwing_handlers)"
    "initialized (sample_scheduler [] throwing_handlers)"
    by (simp_all add: sample_scheduler_def)
  have g: "getJobById (jobs (sample_scheduler [?p] throwing_handlers)) sample_id = Some ?p"
    "getJobById (jobs (sample_scheduler [?r] throwing_handlers)) sample_id = Some ?r"
    "getJobById (jobs (sample_scheduler [] throwing_handlers)) sample_id = None"
    by (simp_all add: sample_scheduler_def sample_job_def new_job_def)
  have st: "status ?p = PENDING" "status ?r = RUNNING"
    by (simp_all add: sample_job_def new_job_def)
  have d: "deleteOne (jobs (sample_scheduler [?p] throwing_handlers)) sample_id = []"
    by (simp add: sample_scheduler_def sample_job_def new_job_def)
  have "\<exists>s'. cancelJob cast_hex24 (sample_scheduler [?p] throwing_handlers) sample_id = Inr (True, s')
          \<and> jobs s' = deleteOne (jobs (sample_scheduler [?p] throwing_handlers)) sample_id"
    using cancelJob_iff_pending [OF i(1), of cast_hex24 sample_id] c(1) g(1) st(1) by blast
  then have 1: "\<exists>s'. cancelJob cast_hex24 (sample_scheduler [?p] throwing_handlers) sample_id
                       = Inr (True, s')
          \<and> jobs s' = [] \<and> getJobById (jobs s') sample_id = None"
    unfolding d by auto
  have 2: "cancelJob cast_hex24 (sample_scheduler [?r] throwing_handlers) sample_id
           = Inr (False, sample_scheduler [?r] throwing_handlers)"
    using cancelJob_iff_pending [OF i(2), of cast_hex24 sample_id] c(1) g(2) st(2) by simp
  have 3: "cancelJob cast_hex24 (sample_scheduler [] throwing_handlers) sample_id
           = Inr (False, sample_scheduler [] throwing_handlers)"
    using cancelJob_iff_pending [OF i(3), of cast_hex24 sample_id] c(1) g(3) by simp
  have 4: "cancelJob cast_hex24 (sample_scheduler [] throwing_handlers) ''a'' = Inl (CastError ''a'')"
    using cancelJob_iff_pending [OF i(3), of cast_hex24 "''a''"] c(2) by simp
  from 1 2 3 4 show ?thesis by blast
qed

text \<open>
  Claim C7. On an initialised scheduler, with an id that the store casts to the ObjectId
  of an existing job: \<open>retryJob\<close> on a job whose status is not \<open>FAILED\<close> raises the state
  error carrying that status. On a \<open>FAILED\<close> job it returns and stores the same record
  with the status changed to \<open>PENDING\<close> and the store's \<open>updatedAt\<close> stamp renewed, so
  \<open>attempts\<close> and \<open>scheduledAt\<close> are what they were.
\<close>

theorem retryJob_only_failed:
  assumes "initialized s" and "cast_id jobId = Some oid" and "getJobById (jobs s) oid = Some job"
  shows "(status job \<noteq> FAILED \<longrightarrow> retryJob cast_id s jobId now = Inl (CannotRetry (status job)))
       \<and> (status job = FAILED \<longrightarrow>
            (\<exists>s'. retryJob cast_id s jobId now
                    = Inr (Some (job\<lparr>status := PENDING, updatedAt := now\<rparr>), s')
                  \<and> getJobById (jobs s') oid = Some (job\<lparr>status := PENDING, updatedAt := now\<rparr>)
                  \<and> attempts (job\<lparr>status := PENDING, updatedAt := now\<rparr>) = attempts job
                  \<and> scheduledAt (job\<lparr>status := PENDING, updatedAt := now\<rparr>) = scheduledAt job))"
  using assms
  by (simp add: retryJob_def Let_def getJobById_updateJobStatus update_doc_def emit_def)

theorem retryJob_only_failed_witness:
  "(\<exists>s'. retryJob cast_hex24
            (sample_scheduler [(sample_job sample_id NORMAL 3 7)\<lparr>status := FAILED, attempts := 3\<rparr>]
               throwing_handlers) sample_id 100
          = Inr (Some ((sample_job sample_id NORMAL 3 7)
                    \<lparr>status := FAILED, attempts := 3, status := PENDING, updatedAt := 100\<rparr>), s'))
   \<and> retryJob cast_hex24
        (sample_scheduler [(sample_job sample_id NORMAL 3 7)\<lparr>status := COMPLETED\<rparr>] throwing_handlers)
        sample_id 100 = Inl (CannotRetry COMPLETED)"
proof -
  let ?f = "(sample_job sample_id NORMAL 3 7)\<lparr>status := FAILED, attempts := 3\<rparr>"
  let ?c = "(sample_job sample_id NORMAL 3 7)\<lparr>status := COMPLETED\<rparr>"
  have c: "cast_hex24 sample_id = Some sample_id"
    by (simp add: cast_hex24_def sample_id_def hex_lower_def)
  have i: "initialized (sample_scheduler [?f] throwing_handlers)"
    "initialized (sample_scheduler [?c] throwing_handlers)"
    by (simp_all add: sample_scheduler_def)
  have g: "getJobById (jobs (sample_scheduler [?f] throwing_handlers)) sample_id = Some ?f"
    "getJobById (jobs (sample_scheduler [?c] throwing_handlers)) sample_id = Some ?c"
    by (simp_all add: sample_scheduler_def sample_job_def new_job_def)
  have st: "status ?f = FAILED" "status ?c = COMPLETED"
    by simp_all
  have 1: "\<exists>s'. retryJob cast_hex24 (sample_scheduler [?f] throwing_handlers) sample_id 100
                = Inr (Some (?f\<lparr>status := PENDING, updatedAt := 100\<rparr>), s')"
    using retryJob_only_failed [where cast_id = cast_hex24, OF i(1) c g(1), of 100] st(1)
    by blast
  have 2: "retryJob cast_hex24 (sample_scheduler [?c] throwing_handlers) sample_id 100
           = Inl (CannotRetry COMPLETED)"
    using retryJob_only_failed [where cast_id = cast_hex24, OF i(2) c g(2), of 100] st(2)
    by simp
  from 1 2 show ?thesis by simp
qed

text \<open>
  Claim C10. \<open>scheduleJob\<close> and \<open>scheduleRecurringJob\<close> on an initialised scheduler
  (and a cron expression the syntax check accepts) create their records, and an option
  \<open>maxRetries\<close>, \<open>retryDelay\<close> or \<open>timeout\<close> passed as 0 comes out as the default
  3, 60000 or 30000. Whatever the options, none of the three fields of a created job or
  recurring record is 0.
\<close>

theorem zero_policy_defaulted:
  assumes "initialized s"
  shows "(\<exists>job s'. scheduleJob s newId nm d at options uid now = Inr (job, s')
            \<and> jobs s' = jobs s @ [job]
            \<and> (opt_field opt_maxRetries options = Some 0 \<longrightarrow> maxRetries job = 3)
            \<and> (opt_field opt_retryDelay options = Some 0 \<longrightarrow> retryDelay job = 60000)
            \<and> (opt_field opt_timeout options = Some 0 \<longrightarrow> timeout job = 30000)
            \<and> maxRetries job \<noteq> 0 \<and> retryDelay job \<noteq> 0 \<and> timeout job \<noteq> 0)
       \<and> (validate cronExpr \<longrightarrow>
            (\<exists>job r s'. scheduleRecurringJob validate z s recId newId nm d cronExpr options uid now
                          = Inr (job, s')
              \<and> jobs s' = jobs s @ [job] \<and> recurringJobs s' = recurringJobs s @ [r]
              \<and> (opt_field opt_maxRetries options = Some 0 \<longrightarrow> maxRetries job = 3 \<and> rec_maxRetries r = 3)
              \<and> (opt_field opt_retryDelay options = Some 0 \<longrightarrow> retryDelay job = 60000 \<and> rec_retryDelay r = 60000)
              \<and> (opt_field opt_timeout options = Some 0 \<longrightarrow> timeout job = 30000 \<and> rec_timeout r = 30000)
              \<and> maxRetries job \<noteq> 0 \<and> retryDelay job \<noteq> 0 \<and> timeout job \<noteq> 0
              \<and> rec_maxRetries r \<noteq> 0 \<and> rec_retryDelay r \<noteq> 0 \<and> rec_timeout r \<noteq> 0))"
  using assms
  by (simp add: scheduleJob_def scheduleRecurringJob_def createJob_def createRecurringJob_def
      new_job_def new_recurring_def emit_def Let_def num_or_nonzero)

theorem zero_policy_defaulted_witness:
  "(\<exists>job s'. scheduleJob (sample_scheduler [] throwing_handlers) ''n1'' ''work'' ''{}'' 5
               (Some zero_options) None 1 = Inr (job, s')
      \<and> maxRetries job = 3 \<and> retryDelay job = 60000 \<and> timeout job = 30000)
   \<and> (\<exists>job r s'. scheduleRecurringJob (\<lambda>c. True) (fixed_zone 0) (sample_scheduler [] throwing_handlers)
                    ''r1'' ''n1'' ''work'' ''{}'' ''0 0 * * *'' (Some zero_options) None 5 = Inr (job, s')
      \<and> recurringJobs s' = [r]
      \<and> maxRetries job = 3 \<and> retryDelay job = 60000 \<and> timeout job = 30000
      \<and> rec_maxRetries r = 3 \<and> rec_retryDelay r = 60000 \<and> rec_timeout r = 30000)"
proof -
  have i: "initialized (sample_scheduler [] throwing_handlers)"
    by (simp add: sample_scheduler_def)
  have z: "opt_field opt_maxRetries (Some zero_options) = Some 0"
    "opt_field opt_retryDelay (Some zero_options) = Some 0"
    "opt_field opt_timeout (Some zero_options) = Some 0"
    by (simp_all add: opt_field_def zero_options_def)
  have j: "jobs (sample_scheduler [] throwing_handlers) = []"
    "recurringJobs (sample_scheduler [] throwing_handlers) = []"
    by (simp_all add: sample_scheduler_def)
  have a: "\<exists>job s'. scheduleJob (sample_scheduler [] throwing_handlers) ''n1'' ''work'' ''{}'' 5
               (Some zero_options) None 1 = Inr (job, s')
      \<and> maxRetries job = 3 \<and> retryDelay job = 60000 \<and> timeout job = 30000"
    using zero_policy_defaulted [OF i, of "''n1''" "''work''" "''{}''" 5 "Some zero_options" None 1,
        THEN conjunct1]
    unfolding z j by blast
  have b: "\<exists>job r s'. scheduleRecurringJob (\<lambda>c. True) (fixed_zone 0) (sample_scheduler [] throwing_handlers)
                    ''r1'' ''n1'' ''work'' ''{}'' ''0 0 * * *'' (Some zero_options) None 5 = Inr (job, s')
      \<and> recurringJobs s' = [r]
      \<and> maxRetries job = 3 \<and> retryDelay job = 60000 \<and> timeout job = 30000
      \<and> rec_maxRetries r = 3 \<and> rec_retryDelay r = 60000 \<and> rec_timeout r = 30000"
    using zero_policy_defaulted [OF i, of "''n1''" "''work''" "''{}''" 5 "Some zero_options" None 5
        "\<lambda>c. True" "''0 0 * * *''" "fixed_zone 0" "''r1''", THEN conjunct2]
    unfolding z j by auto
  from a b show ?thesis by blast
qed

section \<open>The next-run calculator\<close>

text \<open>
  Claim C8 as stated fails. The pattern \<open>*/5 * * * *\<close> is none of the five canonical
  ones, and from 00:01:30 (UTC host) the calculator returns 00:07:00, not 00:06:30
  (now + 5 minutes). The pattern \<open>0 0 * * 1\<close> is none of them either, passes the field
  test of the daily branch and yields the next midnight. And on a New York host, from
  01:59:30 daylight time on 7 November 2021, the result for \<open>*/5 * * * *\<close> is 65.5
  minutes later: adding the minute gives local 02:00:30, which is read as standard time.
\<close>

theorem fallback_not_five_minutes_counterexample:
  "''*/5 * * * *'' \<notin> set canonical_patterns
   \<and> getNextRunTime (fixed_zone 0) ''*/5 * * * *'' 90000 = 420000
   \<and> 420000 \<noteq> 90000 + 5 * msPerMinute
   \<and> ''0 0 * * 1'' \<notin> set canonical_patterns
   \<and> getNextRunTime (fixed_zone 0) ''0 0 * * 1'' 90000 = 86400000
   \<and> 86400000 \<noteq> 90000 + 5 * msPerMinute
   \<and> getNextRunTime new_york_autumn ''*/5 * * * *'' 1636264770000 = 1636264770000 + 3930000"
  by code_simp

text \<open>
  Claim C8, amended. On a host whose time zone is steady around \<open>from\<close> (one UTC offset
  within two days of it), for every cron expression that reaches the last branch of the
  calculator (\<open>falls_back\<close>: it is not \<open>* * * * *\<close> and its fields pass none of the
  field tests of the hourly, daily, weekly and monthly branches), the result is \<open>from\<close>
  rounded forward (one minute added, seconds and milliseconds zeroed, so the start of the
  next local minute) plus 5 minutes: more than 5 and at most 6 minutes after \<open>from\<close>. A
  recurring job scheduled with such an expression on an initialised scheduler has its
  first occurrence created at that instant.
\<close>

theorem fallback_next_run:
  assumes "falls_back cronExpr" and "steady_zone z tz from"
  shows "getNextRunTime z cronExpr from = round_forward z from + 5 * msPerMinute
       \<and> round_forward z from + tz = ((from + tz) div msPerMinute + 1) * msPerMinute
       \<and> from + 5 * msPerMinute < getNextRunTime z cronExpr from
       \<and> getNextRunTime z cronExpr from \<le> from + 6 * msPerMinute
       \<and> (initialized s \<and> validate cronExpr \<longrightarrow>
            (\<exists>job s'. scheduleRecurringJob validate z s recId newId nm d cronExpr options uid from
                        = Inr (job, s')
                  \<and> scheduledAt job = round_forward z from + 5 * msPerMinute))"
proof -
  have 1: "getNextRunTime z cronExpr from = round_forward z from + 5 * msPerMinute"
    using fallback_eq [OF assms(2,1)] by (simp add: msPerMinute_def)
  have 2: "round_forward z from + tz = ((from + tz) div msPerMinute + 1) * msPerMinute"
    by (simp add: round_forward_eq [OF assms(2)] msPerMinute_def)
  have 3: "from < round_forward z from" and 4: "round_forward z from \<le> from + msPerMinute"
    using round_forward_bounds [OF assms(2)] by (simp_all add: msPerMinute_def)
  have 5: "initialized s \<and> validate cronExpr \<longrightarrow>
            (\<exists>job s'. scheduleRecurringJob validate z s recId newId nm d cronExpr options uid from
                        = Inr (job, s')
                  \<and> scheduledAt job = round_forward z from + 5 * msPerMinute)"
    by (simp add: scheduleRecurringJob_def createRecurringJob_def createJob_def new_job_def
        Let_def 1)
  from 1 2 3 4 5 show ?thesis
    by (simp add: msPerMinute_def)
qed

theorem fallback_next_run_witness:
  "falls_back ''*/5 * * * *''
   \<and> getNextRunTime (fixed_zone 0) ''*/5 * * * *'' 90000
       = round_forward (fixed_zone 0) 90000 + 5 * msPerMinute
   \<and> round_forward (fixed_zone 0) 90000 = 120000
   \<and> (\<exists>job s'. scheduleRecurringJob (\<lambda>c. True) (fixed_zone 0) (sample_scheduler [] throwing_handlers)
                  ''r1'' ''n1'' ''work'' ''{}'' ''*/5 * * * *'' None None 90000 = Inr (job, s')
        \<and> scheduledAt job = 420000)"
proof -
  have f: "falls_back ''*/5 * * * *''"
    by (simp add: falls_back_def part_is_def)
  have z: "steady_zone (fixed_zone 0) 0 90000"
    by (rule steady_fixed_zone)
  have i: "initialized (sample_scheduler [] throwing_handlers) \<and> (\<lambda>c. True) ''*/5 * * * *''"
    by (simp add: sample_scheduler_def)
  have r: "((90000 + 0) div msPerMinute + 1) * msPerMinute = 120000"
    by (simp add: msPerMinute_def)
  have m: "(120000::int) + 5 * msPerMinute = 420000"
    by (simp add: msPerMinute_def)
  note t = fallback_next_run [OF f z, of "sample_scheduler [] throwing_handlers" "\<lambda>c. True"
      "''r1''" "''n1''" "''work''" "''{}''" None None]
  from t have a: "getNextRunTime (fixed_zone 0) ''*/5 * * * *'' 90000
                  = round_forward (fixed_zone 0) 90000 + 5 * msPerMinute"
    by blast
  from t have "round_forward (fixed_zone 0) 90000 + 0 = ((90000 + 0) div msPerMinute + 1) * msPerMinute"
    by blast
  then have b: "round_forward (fixed_zone 0) 90000 = 120000"
    unfolding r by simp
  from t i have "\<exists>job s'. scheduleRecurringJob (\<lambda>c. True) (fixed_zone 0)
                  (sample_scheduler [] throwing_handlers) ''r1'' ''n1''
                  ''work'' ''{}'' ''*/5 * * * *'' None None 90000 = Inr (job, s')
        \<and> scheduledAt job = round_forward (fixed_zone 0) 90000 + 5 * msPerMinute"
    by blast
  then have c: "\<exists>job s'. scheduleRecurringJob (\<lambda>c. True) (fixed_zone 0)
                  (sample_scheduler [] throwing_handlers) ''r1'' ''n1''
                  ''work'' ''{}'' ''*/5 * * * *'' None None 90000 = Inr (job, s')
        \<and> scheduledAt job = 420000"
    unfolding b m .
  from f a b c show ?thesis by blast
qed

text \<open>
  Claim C9 as stated fails. On a Havana host 7 November 2021 has two local midnights,
  at 04:00 and at 05:00 UTC. From 04:30 UTC, rounded forward to 04:31 UTC, the first
  local midnight strictly after is the one at 05:00 UTC of that day, yet the calculator
  returns the midnight of 8 November.
\<close>

theorem daily_first_midnight_counterexample:
  "round_forward havana_autumn 1636259400000 = 1636259460000
   \<and> is_midnight havana_autumn 1636261200000
   \<and> (1636259460000::int) < 1636261200000
   \<and> 1636261200000 < getNextRunTime havana_autumn ''0 0 * * *'' 1636259400000
   \<and> getNextRunTime havana_autumn ''0 0 * * *'' 1636259400000 = 1636347600000"
  by code_simp

text \<open>
  Claim C9, amended. On a host whose time zone is steady around \<open>T\<close> (one UTC offset
  within two days of it), for every instant \<open>T\<close> the calculator on \<open>0 0 * * *\<close> yields
  the first local midnight strictly after \<open>T\<close> rounded forward (one minute added, seconds
  and milliseconds zeroed, so the start of the next local minute). The calculator is a
  function of the zone, the expression and \<open>from\<close> alone, so equal inputs give equal
  outputs.
\<close>

theorem daily_next_run:
  assumes "steady_zone z tz T"
  shows "is_midnight z (getNextRunTime z ''0 0 * * *'' T)
       \<and> round_forward z T + tz = ((T + tz) div msPerMinute + 1) * msPerMinute
       \<and> T < round_forward z T
       \<and> round_forward z T < getNextRunTime z ''0 0 * * *'' T
       \<and> (\<forall>m. is_midnight z m \<and> round_forward z T < m \<longrightarrow> getNextRunTime z ''0 0 * * *'' T \<le> m)"
proof -
  define K where "K = (T + tz) div 60000 + 1"
  define r where "r = (K div 1440 + 1) * 86400000 - tz"
  have r: "getNextRunTime z ''0 0 * * *'' T = r"
    by (simp add: daily_eq [OF assms] K_def r_def)
  have f: "round_forward z T = K * 60000 - tz"
    by (simp add: round_forward_eq [OF assms] K_def)
  have k: "T + tz < K * 60000" "K * 60000 \<le> T + tz + 60000"
    using round_forward_bounds [OF assms] unfolding f by linarith+
  have gt: "K * 60000 - tz < r"
    using next_multiple_greater [of K] by (simp add: r_def)
  have near: "r \<le> K * 60000 - tz + 86400000"
    using next_multiple_near [of K] by (simp add: r_def)
  have 1: "is_midnight z r"
  proof -
    have "LocalTime z r = r + tz"
      using assms by (rule steady_LocalTime) (use k gt near in simp)
    then show ?thesis
      by (simp add: is_midnight_def TimeWithinDay_def r_def msPerDay_def)
  qed
  have 2: "round_forward z T + tz = ((T + tz) div msPerMinute + 1) * msPerMinute"
    by (simp add: f K_def msPerMinute_def)
  have 3: "T < round_forward z T"
    using round_forward_bounds [OF assms] by simp
  have 4: "round_forward z T < r"
    using gt by (simp add: f)
  have 5: "r \<le> m" if m: "is_midnight z m" "round_forward z T < m" for m
  proof (cases "r \<le> m")
    case True
    then show ?thesis .
  next
    case False
    have "LocalTime z m = m + tz"
      using assms by (rule steady_LocalTime) (use False m(2) k near in \<open>simp add: f\<close>)
    with m(1) have "(m + tz) mod 86400000 = 0"
      by (simp add: is_midnight_def TimeWithinDay_def msPerDay_def)
    then have "m + tz = (m + tz) div 86400000 * 86400000"
      by (simp add: mod_eq_0_iff_dvd)
    then obtain q where q: "m + tz = q * 86400000" ..
    with m(2) have "K * 60000 < q * 86400000"
      by (simp add: f)
    then have "(K div 1440 + 1) * 86400000 \<le> q * 86400000"
      by (rule next_multiple_least)
    with q show ?thesis
      by (simp add: r_def)
  qed
  from 1 2 3 4 5 show ?thesis
    unfolding r by blast
qed

theorem daily_next_run_witness:
  "is_midnight (fixed_zone 0) (getNextRunTime (fixed_zone 0) ''0 0 * * *'' 86370000)
   \<and> round_forward (fixed_zone 0) 86370000 = 86400000
   \<and> getNextRunTime (fixed_zone 0) ''0 0 * * *'' 86370000 \<le> 172800000
   \<and> steady_zone new_york_autumn (- 14400000) 1636000000000
   \<and> is_midnight new_york_autumn (getNextRunTime new_york_autumn ''0 0 * * *'' 1636000000000)"
proof -
  have z: "steady_zone (fixed_zone 0) 0 86370000"
    by (rule steady_fixed_zone)
  have n: "steady_zone new_york_autumn (- 14400000) 1636000000000"
    by (auto simp: steady_zone_def new_york_autumn_def changing_zone_def msPerDay_def)
  have u: "((86370000 + 0) div msPerMinute + 1) * msPerMinute = 86400000"
    by (simp add: msPerMinute_def)
  have m1: "is_midnight (fixed_zone 0) 172800000 \<and> (86400000::int) < 172800000"
    by (simp add: is_midnight_def TimeWithinDay_def LocalTime_def fixed_zone_def msPerDay_def)
  note a = daily_next_run [OF z]
  note b = daily_next_run [OF n]
  from a have 1: "is_midnight (fixed_zone 0) (getNextRunTime (fixed_zone 0) ''0 0 * * *'' 86370000)"
    by blast
  from a have "round_forward (fixed_zone 0) 86370000 + 0
               = ((86370000 + 0) div msPerMinute + 1) * msPerMinute"
    by blast
  then have 2: "round_forward (fixed_zone 0) 86370000 = 86400000"
    unfolding u by simp
  from a have "\<forall>m. is_midnight (fixed_zone 0) m \<and> round_forward (fixed_zone 0) 86370000 < m
                  \<longrightarrow> getNextRunTime (fixed_zone 0) ''0 0 * * *'' 86370000 \<le> m"
    by blast
  with m1 have 3: "getNextRunTime (fixed_zone 0) ''0 0 * * *'' 86370000 \<le> 172800000"
    unfolding 2 by blast
  from b have 4: "is_midnight new_york_autumn (getNextRunTime new_york_autumn ''0 0 * * *'' 1636000000000)"
    by blast
  from 1 2 3 n 4 show ?thesis by blast
qed

section \<open>Failure and automatic retry\<close>

text \<open>
  Claim C1 as stated fails. A job with \<open>maxRetries = 1\<close> whose handler always throws
  has \<open>attempts = 1 \<le> maxRetries\<close> at its first failure and is nevertheless left
  \<open>FAILED\<close>, not \<open>PENDING\<close>; after two ticks one attempt is recorded, not two.
\<close>

theorem failure_retry_threshold_counterexample:
  "map status (jobs_after (processNextJobs (sample_scheduler [sample_job ''j1'' NORMAL 1 0] throwing_handlers) 10))
     = [FAILED]
   \<and> map attempts (jobs_after (processNextJobs (sample_scheduler [sample_job ''j1'' NORMAL 1 0] throwing_handlers) 10))
     = [1]
   \<and> map maxRetries (jobs_after (processNextJobs (sample_scheduler [sample_job ''j1'' NORMAL 1 0] throwing_handlers) 10))
     = [1]
   \<and> map status (jobs_after (two_ticks (sample_scheduler [sample_job ''j1'' NORMAL 1 0] throwing_handlers) 10 20))
     = [FAILED]
   \<and> map attempts (jobs_after (two_ticks (sample_scheduler [sample_job ''j1'' NORMAL 1 0] throwing_handlers) 10 20))
     = [1]"
  by code_simp

text \<open>
  Claim C1, amended. For every job that has just failed an execution attempt (failed
  result, exception or timeout), with the attempt count as persisted at that time: if
  \<open>attempts < maxRetries\<close> the status returns to \<open>PENDING\<close>; if \<open>attempts \<ge> maxRetries\<close>
  the status is \<open>FAILED\<close>, the job is due at no time, and a \<open>FAILED\<close> job is never
  among the selected ones, so no further automatic retry occurs. The attempt count is not
  changed by the failure handling and the job leaves the active set. In particular a job
  whose handler always throws and whose \<open>maxRetries\<close> is 1 is \<open>FAILED\<close> after one tick
  with exactly one attempt recorded, and a second tick leaves it as it is.
\<close>

theorem failure_retry_threshold:
  assumes "is_failure res" and "getJobById (jobs s) (job_id job) = Some j"
  shows "(\<exists>j'. getJobById (jobs (processJob_finish s job res now)) (job_id job) = Some j'
            \<and> (attempts j < maxRetries j \<longrightarrow> status j' = PENDING)
            \<and> (maxRetries j \<le> attempts j \<longrightarrow> status j' = FAILED \<and> (\<forall>t. \<not> is_due t j'))
            \<and> attempts j' = attempts j \<and> maxRetries j' = maxRetries j
            \<and> scheduledAt j' = scheduledAt j)
       \<and> job_id job \<notin> set (activeJobs (processJob_finish s job res now))
       \<and> (\<forall>coll lim t j'. j' \<in> set (getPendingJobs coll lim t) \<longrightarrow> status j' \<noteq> FAILED)
       \<and> jobs_after (processNextJobs (sample_scheduler [sample_job ''j1'' NORMAL 1 0] throwing_handlers) 10)
           = [(sample_job ''j1'' NORMAL 1 0)\<lparr>status := FAILED, executedAt := Some 10,
                errorMessage := Some ''boom'', attempts := 1, updatedAt := 10\<rparr>]
       \<and> jobs_after (two_ticks (sample_scheduler [sample_job ''j1'' NORMAL 1 0] throwing_handlers) 10 20)
           = [(sample_job ''j1'' NORMAL 1 0)\<lparr>status := FAILED, executedAt := Some 10,
                errorMessage := Some ''boom'', attempts := 1, updatedAt := 10\<rparr>]"
proof -
  have 1: "\<exists>j'. getJobById (jobs (processJob_finish s job res now)) (job_id job) = Some j'
            \<and> (attempts j < maxRetries j \<longrightarrow> status j' = PENDING)
            \<and> (maxRetries j \<le> attempts j \<longrightarrow> status j' = FAILED \<and> (\<forall>t. \<not> is_due t j'))
            \<and> attempts j' = attempts j \<and> maxRetries j' = maxRetries j
            \<and> scheduledAt j' = scheduledAt j"
    by (simp add: processJob_finish_failure_job [OF assms] update_doc_FAILED_fields is_due_def)
  have 2: "job_id job \<notin> set (activeJobs (processJob_finish s job res now))"
    by (rule processJob_finish_inactive)
  have 3: "\<forall>coll lim t j'. j' \<in> set (getPendingJobs coll lim t) \<longrightarrow> status j' \<noteq> FAILED"
    by (auto dest: getPendingJobs_pending)
  have 4: "jobs_after (processNextJobs (sample_scheduler [sample_job ''j1'' NORMAL 1 0] throwing_handlers) 10)
           = [(sample_job ''j1'' NORMAL 1 0)\<lparr>status := FAILED, executedAt := Some 10,
                errorMessage := Some ''boom'', attempts := 1, updatedAt := 10\<rparr>]"
    by code_simp
  have 5: "jobs_after (two_ticks (sample_scheduler [sample_job ''j1'' NORMAL 1 0] throwing_handlers) 10 20)
           = [(sample_job ''j1'' NORMAL 1 0)\<lparr>status := FAILED, executedAt := Some 10,
                errorMessage := Some ''boom'', attempts := 1, updatedAt := 10\<rparr>]"
    by code_simp
  from 1 2 3 4 5 show ?thesis by blast
qed

theorem failure_retry_threshold_witness:
  "(\<exists>j'. getJobById (jobs (processJob_finish
              (sample_scheduler [(sample_job ''j1'' NORMAL 3 0)\<lparr>status := RUNNING, attempts := 1\<rparr>] throwing_handlers)
              (sample_job ''j1'' NORMAL 3 0) (Rejected (Some ''boom'')) 10)) ''j1'' = Some j'
         \<and> status j' = PENDING \<and> attempts j' = 1)
   \<and> (\<exists>j'. getJobById (jobs (processJob_finish
              (sample_scheduler [(sample_job ''j1'' NORMAL 3 0)\<lparr>status := RUNNING, attempts := 3\<rparr>] throwing_handlers)
              (sample_job ''j1'' NORMAL 3 0) (Rejected (Some ''boom'')) 10)) ''j1'' = Some j'
         \<and> status j' = FAILED \<and> attempts j' = 3)"
proof -
  let ?a = "(sample_job ''j1'' NORMAL 3 0)\<lparr>status := RUNNING, attempts := 1\<rparr>"
  let ?b = "(sample_job ''j1'' NORMAL 3 0)\<lparr>status := RUNNING, attempts := 3\<rparr>"
  have f: "is_failure (Rejected (Some ''boom''))"
    by (simp add: is_failure_def)
  have i: "job_id (sample_job ''j1'' NORMAL 3 0) = ''j1''"
    by (simp add: sample_job_def new_job_def)
  have g: "getJobById (jobs (sample_scheduler [?a] throwing_handlers)) (job_id (sample_job ''j1'' NORMAL 3 0)) = Some ?a"
    "getJobById (jobs (sample_scheduler [?b] throwing_handlers)) (job_id (sample_job ''j1'' NORMAL 3 0)) = Some ?b"
    by (simp_all add: sample_scheduler_def sample_job_def new_job_def)
  have v: "attempts ?a < maxRetries ?a" "maxRetries ?b \<le> attempts ?b" "attempts ?a = 1" "attempts ?b = 3"
    by (simp_all add: sample_job_def new_job_def sample_options_def opt_field_def)
  have 1: "\<exists>j'. getJobById (jobs (processJob_finish (sample_scheduler [?a] throwing_handlers)
              (sample_job ''j1'' NORMAL 3 0) (Rejected (Some ''boom'')) 10)) ''j1'' = Some j'
         \<and> status j' = PENDING \<and> attempts j' = 1"
    using failure_retry_threshold [OF f g(1), of 10] v(1,3) unfolding i by auto
  have 2: "\<exists>j'. getJobById (jobs (processJob_finish (sample_scheduler [?b] throwing_handlers)
              (sample_job ''j1'' NORMAL 3 0) (Rejected (Some ''boom'')) 10)) ''j1'' = Some j'
         \<and> status j' = FAILED \<and> attempts j' = 3"
    using failure_retry_threshold [OF f g(2), of 10] v(2,4) unfolding i by auto
  from 1 2 show ?thesis by blast
qed

text \<open>
  Claim C4 as stated fails. The automatic retry of a job last updated at time 0, made at
  time 10, leaves the job with \<open>updatedAt = 10\<close>: a field other than \<open>status\<close> is written,
  the stamp that the store renews with every update.
\<close>

theorem retry_writes_updatedAt_counterexample:
  "map updatedAt (jobs (sample_scheduler
        [(sample_job ''j1'' NORMAL 3 5)\<lparr>status := FAILED, attempts := 1\<rparr>] throwing_handlers)) = [0]
   \<and> map updatedAt (jobs (retry_after_exception (sample_scheduler
        [(sample_job ''j1'' NORMAL 3 5)\<lparr>status := FAILED, attempts := 1\<rparr>] throwing_handlers)
        ''j1'' 10)) = [10]
   \<and> map updatedAt (jobs (retry_after_result (sample_scheduler
        [(sample_job ''j1'' NORMAL 3 5)\<lparr>status := FAILED, attempts := 1\<rparr>] throwing_handlers)
        ''j1'' 10)) = [10]"
  by code_simp

text \<open>
  Claim C4, amended. When the retry check finds \<open>attempts < maxRetries\<close>, in the result
  path and in the exception path alike, the job's record afterwards is the record before
  with \<open>status\<close> set to \<open>PENDING\<close> and the store's stamp \<open>updatedAt\<close> renewed, and nothing
  else: \<open>scheduledAt\<close> and every other field are kept, every other job and the rest of
  the scheduler state are untouched. The retry instant \<open>now + retryDelay\<close> goes nowhere,
  and a job whose due time had passed is due again at once.
\<close>

theorem retry_writes_status_and_stamp:
  assumes "getJobById (jobs s) jobId = Some j" and "attempts j < maxRetries j"
  shows "getJobById (jobs (retry_after_result s jobId now)) jobId
           = Some (j\<lparr>status := PENDING, updatedAt := now\<rparr>)
       \<and> getJobById (jobs (retry_after_exception s jobId now)) jobId
           = Some (j\<lparr>status := PENDING, updatedAt := now\<rparr>)
       \<and> (\<forall>k. k \<noteq> jobId \<longrightarrow>
             getJobById (jobs (retry_after_result s jobId now)) k = getJobById (jobs s) k
           \<and> getJobById (jobs (retry_after_exception s jobId now)) k = getJobById (jobs s) k)
       \<and> retry_after_result s jobId now = s\<lparr>jobs := jobs (retry_after_result s jobId now)\<rparr>
       \<and> retry_after_exception s jobId now = s\<lparr>jobs := jobs (retry_after_exception s jobId now)\<rparr>
       \<and> scheduledAt (j\<lparr>status := PENDING, updatedAt := now\<rparr>) = scheduledAt j
       \<and> (scheduledAt j \<le> now \<longrightarrow> is_due now (j\<lparr>status := PENDING, updatedAt := now\<rparr>))"
  using assms retry_after_result_frame [of s jobId now] retry_after_exception_frame [of s jobId now]
  by (simp add: retry_after_result_job retry_after_exception_job is_due_def)

theorem retry_writes_status_and_stamp_witness:
  "getJobById (jobs (retry_after_exception
      (sample_scheduler [(sample_job ''j1'' NORMAL 3 5)\<lparr>status := FAILED, attempts := 1\<rparr>] throwing_handlers)
      ''j1'' 10)) ''j1''
     = Some ((sample_job ''j1'' NORMAL 3 5)
               \<lparr>status := FAILED, attempts := 1, status := PENDING, updatedAt := 10\<rparr>)
   \<and> is_due 10 ((sample_job ''j1'' NORMAL 3 5)
               \<lparr>status := FAILED, attempts := 1, status := PENDING, updatedAt := 10\<rparr>)"
proof -
  let ?a = "(sample_job ''j1'' NORMAL 3 5)\<lparr>status := FAILED, attempts := 1\<rparr>"
  have g: "getJobById (jobs (sample_scheduler [?a] throwing_handlers)) ''j1'' = Some ?a"
    by (simp add: sample_scheduler_def sample_job_def new_job_def)
  have v: "attempts ?a < maxRetries ?a"
    by (simp add: sample_job_def new_job_def sample_options_def opt_field_def)
  have d: "scheduledAt ?a \<le> 10"
    by (simp add: sample_job_def new_job_def)
  from retry_writes_status_and_stamp [OF g v, of 10] d show ?thesis by blast
qed

section \<open>Selection and dispatch\<close>

text \<open>
  Claim C2, evaluated on the code. The store sorts on the persisted priority value, a
  string, and in descending byte order \<open>normal\<close> comes before \<open>low\<close> and \<open>low\<close> before
  \<open>high\<close>. Of two due pending jobs, a \<open>HIGH\<close> one due at 200 and a \<open>LOW\<close> one due at
  100, the query with limit 1 at time 300 returns the \<open>LOW\<close> one, whichever was inserted
  first; with all three priorities present the order is \<open>NORMAL\<close>, \<open>LOW\<close>, \<open>HIGH\<close>.
\<close>

theorem high_priority_sorted_last:
  "map job_id (getPendingJobs [sample_job ''hi'' HIGH 3 200, sample_job ''lo'' LOW 3 100] 1 300) = [''lo'']
   \<and> map job_id (getPendingJobs [sample_job ''lo'' LOW 3 100, sample_job ''hi'' HIGH 3 200] 1 300) = [''lo'']
   \<and> map priority (getPendingJobs [sample_job ''hi'' HIGH 3 200, sample_job ''no'' NORMAL 3 100,
        sample_job ''lo'' LOW 3 100] 10 300) = [NORMAL, LOW, HIGH]"
  by (simp add: getPendingJobs_def limit_docs_def is_due_def sample_job_def new_job_def
      sample_options_def opt_field_def sort_before_def)

text \<open>
  Claim C3, evaluated on the code. With \<open>maxConcurrentJobs = 1\<close> and two due pending
  jobs, two calls of \<open>processNextJobs\<close> one after the other start both: the second call
  makes its check while the first job's id is not yet in the active-job set, which gets
  it only after the awaited write, and the set ends with two ids. And a job whose handler
  reports a failure is set back to \<open>PENDING\<close> before its call of \<open>processJob\<close> has taken
  its id out of the set; a call of \<open>processNextJobs\<close> at that moment fetches the job
  again, with an id object of its own, the guard finds that object not in the set, the
  job is started a second time, and the set holds two id objects of the one job, which
  is \<open>RUNNING\<close> with two attempts and two start events.
\<close>

theorem overlapping_calls_break_the_cap:
  "maxConcurrentJobs (scheduler (run (start_loop
       ((sample_scheduler [sample_job ''a'' NORMAL 3 0, sample_job ''b'' NORMAL 3 1] throwing_handlers)
          \<lparr>maxConcurrentJobs := 1\<rparr>)) two_calls)) = 1
   \<and> map snd (activeSet (run (start_loop
       ((sample_scheduler [sample_job ''a'' NORMAL 3 0, sample_job ''b'' NORMAL 3 1] throwing_handlers)
          \<lparr>maxConcurrentJobs := 1\<rparr>)) two_calls)) = [''a'', ''b'']
   \<and> activeSet (run (start_loop (sample_scheduler [sample_job ''a'' NORMAL 3 0] failing_handlers))
       (take 8 retry_then_call)) = [(0, ''a'')]
   \<and> activeSet (run (start_loop (sample_scheduler [sample_job ''a'' NORMAL 3 0] failing_handlers))
       retry_then_call) = [(0, ''a''), (1, ''a'')]
   \<and> map status (jobs (scheduler (run (start_loop
       (sample_scheduler [sample_job ''a'' NORMAL 3 0] failing_handlers)) retry_then_call))) = [RUNNING]
   \<and> map attempts (jobs (scheduler (run (start_loop
       (sample_scheduler [sample_job ''a'' NORMAL 3 0] failing_handlers)) retry_then_call))) = [2]
   \<and> map fst (emitted (scheduler (run (start_loop
       (sample_scheduler [sample_job ''a'' NORMAL 3 0] failing_handlers))
       (retry_then_call @ [Resume 1 20])))) = [JOB_STARTED, JOB_STARTED]"
  by code_simp

text \<open>
  Claim C5 as stated fails. A pending job with \<open>maxRetries = 3\<close> and no registered
  handler is \<open>FAILED\<close> after the tick with \<open>attempts\<close> still 0: no attempt is recorded
  and the retry check, which would requeue a job with \<open>attempts < maxRetries\<close>, is
  not run. The same job with a handler that throws ends the tick \<open>PENDING\<close> with one
  attempt.
\<close>

theorem no_handler_no_attempt_counterexample:
  "map status (jobs_after (processNextJobs (sample_scheduler [sample_job ''g'' NORMAL 3 0] no_handlers) 10))
     = [FAILED]
   \<and> map attempts (jobs_after (processNextJobs (sample_scheduler [sample_job ''g'' NORMAL 3 0] no_handlers) 10))
     = [0]
   \<and> map maxRetries (jobs_after (processNextJobs (sample_scheduler [sample_job ''g'' NORMAL 3 0] no_handlers) 10))
     = [3]
   \<and> map status (jobs_after (processNextJobs (sample_scheduler [sample_job ''g'' NORMAL 3 0] throwing_handlers) 10))
     = [PENDING]
   \<and> map attempts (jobs_after (processNextJobs (sample_scheduler [sample_job ''g'' NORMAL 3 0] throwing_handlers) 10))
     = [1]"
  by code_simp

text \<open>
  Claim C5, amended. When \<open>processJob\<close> runs on a job that is not in the active-job set
  and whose name has no registered handler, the job is marked \<open>FAILED\<close> with the message
  \<open>No handler registered for job type: \<close> followed by the job's name (the store renewing
  \<open>updatedAt\<close> with the write), and nothing else happens: \<open>attempts\<close> keeps its value, the
  retry check is not run (the job is due at no time afterwards, whatever its
  \<open>maxRetries\<close>), other jobs are untouched, the active-job set is unchanged and no event
  is emitted.
\<close>

theorem no_handler_fails_without_retry:
  assumes "\<not> set_has (activeJobs s) (job_id job)" and "jobHandlers s (name job) = None"
    and "getJobById (jobs s) (job_id job) = Some j"
  shows "processJob_start s job now = (None, processJob s job now)
       \<and> getJobById (jobs (processJob s job now)) (job_id job)
           = Some (j\<lparr>status := FAILED,
                     errorMessage := Some (''No handler registered for job type: '' @ name job),
                     updatedAt := now\<rparr>)
       \<and> attempts (j\<lparr>status := FAILED,
                     errorMessage := Some (''No handler registered for job type: '' @ name job),
                     updatedAt := now\<rparr>)
           = attempts j
       \<and> (\<forall>t. \<not> is_due t (j\<lparr>status := FAILED,
                     errorMessage := Some (''No handler registered for job type: '' @ name job),
                     updatedAt := now\<rparr>))
       \<and> (\<forall>k. k \<noteq> job_id job \<longrightarrow> getJobById (jobs (processJob s job now)) k = getJobById (jobs s) k)
       \<and> activeJobs (processJob s job now) = activeJobs s
       \<and> emitted (processJob s job now) = emitted s"
  using assms
  by (simp add: processJob_def processJob_start_def getJobById_updateJobStatus update_doc_def
      is_due_def)

theorem no_handler_fails_without_retry_witness:
  "getJobById (jobs (processJob (sample_scheduler [sample_job ''g'' NORMAL 3 0] no_handlers)
                       (sample_job ''g'' NORMAL 3 0) 10)) ''g''
     = Some ((sample_job ''g'' NORMAL 3 0)\<lparr>status := FAILED,
               errorMessage := Some ''No handler registered for job type: work'', updatedAt := 10\<rparr>)
   \<and> attempts ((sample_job ''g'' NORMAL 3 0)\<lparr>status := FAILED,
               errorMessage := Some ''No handler registered for job type: work'', updatedAt := 10\<rparr>) = 0"
proof -
  let ?s = "sample_scheduler [sample_job ''g'' NORMAL 3 0] no_handlers"
  let ?j = "sample_job ''g'' NORMAL 3 0"
  have i: "job_id ?j = ''g''" "name ?j = ''work''" "attempts ?j = 0"
    by (simp_all add: sample_job_def new_job_def)
  have a: "\<not> set_has (activeJobs ?s) (job_id ?j)"
    by (simp add: sample_scheduler_def set_has_def)
  have h: "jobHandlers ?s (name ?j) = None"
    by (simp add: sample_scheduler_def no_handlers_def)
  have g: "getJobById (jobs ?s) (job_id ?j) = Some ?j"
    by (simp add: sample_scheduler_def)
  from no_handler_fails_without_retry [OF a h g, of 10] show ?thesis
    unfolding i by simp
qed

end
